theory Spec2Isabelle
  imports Main "HOL-Library.Multiset"
begin

section \<open>Study material pipeline (backend/pipeline/main.py)\<close>

text \<open>
  The handlers of \<^verbatim>\<open>main.py\<close> talk to three external stores: the relational
  database (tables \<^verbatim>\<open>users_profile\<close>, \<^verbatim>\<open>files\<close>,
  \<^verbatim>\<open>documents_metadata\<close>, \<^verbatim>\<open>summaries\<close>), the document store
  (collection \<^verbatim>\<open>processing_status\<close>) and the object store (the bucket).
  The model threads one record of these stores through every handler. A table is the list
  of its rows in insertion order; the document collection and the bucket are maps.
  Strings are \<^typ>\<open>string\<close>, Python's unbounded integers are \<^typ>\<open>int\<close>, an
  \<^verbatim>\<open>Optional[str]\<close> is a \<^typ>\<open>string option\<close>. Times are integers counting
  seconds. Every \<^verbatim>\<open>raise\<close> is a value \<open>Inl\<close> of the handler's result.
\<close>

subsection \<open>Python values\<close>

text \<open>The truth value Python gives an optional string: \<^verbatim>\<open>None\<close> and the empty
  string are false.\<close>

definition truthy :: "string option \<Rightarrow> bool" where
  "truthy v = (case v of None \<Rightarrow> False | Some s \<Rightarrow> s \<noteq> [])"

text \<open>\<^verbatim>\<open>a or b\<close> on an optional string \<open>a\<close> and a string \<open>b\<close>.\<close>

definition py_or :: "string option \<Rightarrow> string \<Rightarrow> string" where
  "py_or a b = (case a of None \<Rightarrow> b | Some s \<Rightarrow> if s = [] then b else s)"

text \<open>\<^verbatim>\<open>s.split(c)\<close> for a one-character separator: never empty, one more piece
  than there are separators.\<close>

fun split_char :: "char \<Rightarrow> string \<Rightarrow> string list" where
  "split_char c [] = [[]]"
| "split_char c (x # xs) =
     (if x = c then [] # split_char c xs
      else (case split_char c xs of
              [] \<Rightarrow> [[x]]
            | w # ws \<Rightarrow> (x # w) # ws))"

subsection \<open>Rows, documents and the stores\<close>

record profile_row =
  p_firebase_uid :: string
  p_email :: "string option"
  p_display_name :: "string option"
  p_preferences :: "(string \<times> string) list"

record file_row =
  f_file_id :: string
  f_firebase_uid :: string
  f_file_name :: string
  f_file_type :: string
  f_storage_path :: string
  f_upload_time :: int

record metadata_row =
  d_id :: string
  d_firebase_uid :: string

record summary_row =
  s_id :: string
  s_document_id :: string
  s_summary_text :: string
  s_version :: int
  s_created_at :: int

text \<open>A value stored in a field of a status document.\<close>

datatype fs_value = Str string | Num int | Null | Timestamp int

type_synonym document = "string \<rightharpoonup> fs_value"

text \<open>One call of \<^verbatim>\<open>status_ref.set\<close>, as it is recorded in the history of writes:
  document identifier, status label, progress, message.\<close>

record status_write =
  w_file_id :: string
  w_status :: string
  w_progress :: int
  w_message :: "string option"

text \<open>The stores. \<open>status_log\<close> is the history of the calls of
  \<^verbatim>\<open>update_processing_status\<close>, oldest first; the handlers never read it.\<close>

record stores =
  users_profile :: "profile_row list"
  files :: "file_row list"
  documents_metadata :: "metadata_row list"
  summaries :: "summary_row list"
  processing_status :: "string \<rightharpoonup> document"
  bucket :: "string \<rightharpoonup> string"
  status_log :: "status_write list"

definition empty_stores :: stores where
  "empty_stores =
     \<lparr>users_profile = [], files = [], documents_metadata = [], summaries = [],
      processing_status = Map.empty, bucket = Map.empty, status_log = []\<rparr>"

datatype http_error =
    HTTPException int string
  | Unhandled string

subsection \<open>\<^verbatim>\<open>ensure_user_profile\<close>\<close>

text \<open>
  \<^verbatim>\<open>result = ...select("firebase_uid, email").eq("firebase_uid", firebase_uid)\<close>;
  an empty result inserts a row; otherwise
  \<^verbatim>\<open>elif email and not result.data[0].get("email")\<close> updates the email of the rows
  of that identity.
\<close>

definition ensure_user_profile :: "string \<Rightarrow> string option \<Rightarrow> stores \<Rightarrow> stores" where
  "ensure_user_profile firebase_uid email s =
     (case filter (\<lambda>p. p_firebase_uid p = firebase_uid) (users_profile s) of
        [] \<Rightarrow>
          s\<lparr>users_profile := users_profile s @
               [\<lparr>p_firebase_uid = firebase_uid, p_email = email,
                 p_display_name = None, p_preferences = []\<rparr>]\<rparr>
      | r # _ \<Rightarrow>
          if truthy email \<and> \<not> truthy (p_email r)
          then s\<lparr>users_profile :=
                 map (\<lambda>p. if p_firebase_uid p = firebase_uid then p\<lparr>p_email := email\<rparr> else p)
                   (users_profile s)\<rparr>
          else s)"

subsection \<open>\<^verbatim>\<open>update_processing_status\<close> and \<^verbatim>\<open>get_status\<close>\<close>

text \<open>One look at the clocks: \<^verbatim>\<open>datetime.utcnow()\<close> of the process and the
  \<^verbatim>\<open>SERVER_TIMESTAMP\<close> the document store fills in.\<close>

record instant =
  utcnow :: int
  server_timestamp :: int

text \<open>\<^verbatim>\<open>timedelta(hours=h)\<close>, in seconds.\<close>

definition timedelta_hours :: "int \<Rightarrow> int" where
  "timedelta_hours h = h * 3600"

definition opt_value :: "string option \<Rightarrow> fs_value" where
  "opt_value m = (case m of None \<Rightarrow> Null | Some x \<Rightarrow> Str x)"

text \<open>The dictionary passed to \<^verbatim>\<open>status_ref.set\<close>.\<close>

definition status_document ::
  "instant \<Rightarrow> string \<Rightarrow> string \<Rightarrow> string \<Rightarrow> int \<Rightarrow> string option \<Rightarrow> document" where
  "status_document t firebase_uid file_id status progress message =
     [''firebase_uid'' \<mapsto> Str firebase_uid,
      ''file_id'' \<mapsto> Str file_id,
      ''status'' \<mapsto> Str status,
      ''progress'' \<mapsto> Num progress,
      ''message'' \<mapsto> opt_value message,
      ''updated_at'' \<mapsto> Timestamp (server_timestamp t),
      ''expire_at'' \<mapsto> Timestamp (utcnow t + timedelta_hours 24)]"

text \<open>\<^verbatim>\<open>set\<close> without merge replaces the whole document of that identifier.\<close>

definition update_processing_status ::
  "instant \<Rightarrow> string \<Rightarrow> string \<Rightarrow> string \<Rightarrow> int \<Rightarrow> string option \<Rightarrow> stores \<Rightarrow> stores" where
  "update_processing_status t firebase_uid file_id status progress message s =
     s\<lparr>processing_status :=
         (processing_status s)
           (file_id \<mapsto> status_document t firebase_uid file_id status progress message),
       status_log := status_log s @
         [\<lparr>w_file_id = file_id, w_status = status, w_progress = progress,
           w_message = message\<rparr>]\<rparr>"

record ProcessingStatus =
  ps_file_id :: string
  ps_status :: string
  ps_progress :: int
  ps_message :: "string option"

text \<open>\<^verbatim>\<open>data.get(key, default)\<close>.\<close>

definition dict_get :: "document \<Rightarrow> string \<Rightarrow> fs_value \<Rightarrow> fs_value" where
  "dict_get data key dflt = (case data key of None \<Rightarrow> dflt | Some v \<Rightarrow> v)"

text \<open>
  The response is built by the model class \<^verbatim>\<open>ProcessingStatus\<close>, which declares
  \<^verbatim>\<open>status: str\<close>, \<^verbatim>\<open>progress: int\<close> and \<^verbatim>\<open>message: Optional[str]\<close>.
  What the validation library makes of a stored value of another kind (it turns the
  string \<^verbatim>\<open>"40"\<close> into the integer 40, and refuses others) is not written in this
  repository, so the three conversions are a parameter of the handler; \<open>None\<close> is a
  validation error.
\<close>

record validation =
  to_str :: "fs_value \<Rightarrow> string option"
  to_int :: "fs_value \<Rightarrow> int option"
  to_optional_str :: "fs_value \<Rightarrow> string option option"

text \<open>All that is assumed of the conversions: a value of the declared type is accepted
  as it is.\<close>

definition accepts_declared :: "validation \<Rightarrow> bool" where
  "accepts_declared v =
     ((\<forall>x. to_str v (Str x) = Some x) \<and> (\<forall>i. to_int v (Num i) = Some i)
      \<and> to_optional_str v Null = Some None
      \<and> (\<forall>x. to_optional_str v (Str x) = Some (Some x)))"

definition get_status ::
  "validation \<Rightarrow> string \<Rightarrow> string \<Rightarrow> stores \<Rightarrow> http_error + ProcessingStatus" where
  "get_status v file_id firebase_uid s =
     (case processing_status s file_id of
        None \<Rightarrow> Inl (HTTPException 404 ''Status not found'')
      | Some data \<Rightarrow>
          if data ''firebase_uid'' \<noteq> Some (Str firebase_uid)
          then Inl (HTTPException 403 ''Access denied'')
          else
            (case (to_str v (dict_get data ''status'' (Str ''unknown'')),
                   to_int v (dict_get data ''progress'' (Num 0)),
                   to_optional_str v (dict_get data ''message'' Null)) of
               (Some st, Some pr, Some msg) \<Rightarrow>
                 Inr \<lparr>ps_file_id = file_id, ps_status = st, ps_progress = pr,
                      ps_message = msg\<rparr>
             | _ \<Rightarrow> Inl (Unhandled ''ValidationError'')))"

subsection \<open>Requests, responses and what a handler cannot control\<close>

text \<open>The decoded token: \<^verbatim>\<open>user["uid"]\<close> and \<^verbatim>\<open>user.get("email")\<close>.\<close>

record firebase_user =
  user_uid :: string
  user_email :: "string option"

record UploadFile =
  filename :: string
  content_type :: "string option"
  content :: string

record URLUploadRequest =
  u_url :: string
  u_title :: "string option"

record TextUploadRequest =
  t_text :: string
  t_title :: "string option"

record FileUploadResponse =
  r_file_id :: string
  r_file_name :: string
  r_file_type :: string
  r_storage_path :: string
  r_status :: string

text \<open>The calls \<^verbatim>\<open>background_tasks.add_task\<close> records, with their keyword
  arguments in the order of the source.\<close>

datatype task =
    ProcessFile string string string string
  | ProcessUrl string string string
  | ProcessText string string string string

text \<open>
  What one request gets from outside: the identifier \<^verbatim>\<open>str(uuid.uuid4())\<close>, the
  clock at its \<open>k\<close>-th call of \<^verbatim>\<open>update_processing_status\<close>, the time the
  database stamps on an inserted \<^verbatim>\<open>files\<close> row, and whether a call to a store
  raises (the text of the exception when it does).
\<close>

record env =
  new_uuid :: string
  clock :: "nat \<Rightarrow> instant"
  db_now :: int
  storage_failure :: "string option"
  files_insert_failure :: "string option"
  metadata_insert_failure :: "string option"

definition SUPPORTED_TYPES :: "(string \<times> string) list" where
  "SUPPORTED_TYPES =
     [(''application/pdf'', ''pdf''),
      (''application/vnd.openxmlformats-officedocument.wordprocessingml.document'', ''docx''),
      (''application/vnd.openxmlformats-officedocument.presentationml.presentation'', ''pptx''),
      (''image/png'', ''image''),
      (''image/jpeg'', ''image''),
      (''image/webp'', ''image''),
      (''audio/mpeg'', ''audio''),
      (''audio/wav'', ''audio''),
      (''audio/webm'', ''audio''),
      (''video/mp4'', ''video''),
      (''video/webm'', ''video'')]"

text \<open>\<^verbatim>\<open>SUPPORTED_TYPES[content_type]\<close> guarded by
  \<^verbatim>\<open>content_type not in SUPPORTED_TYPES\<close>; a missing content type is
  \<^verbatim>\<open>None\<close>, which is no key.\<close>

definition supported_type :: "string option \<Rightarrow> string option" where
  "supported_type ct = (case ct of None \<Rightarrow> None | Some c \<Rightarrow> map_of SUPPORTED_TYPES c)"

text \<open>How an f-string prints an optional string.\<close>

definition py_format :: "string option \<Rightarrow> string" where
  "py_format v = (case v of None \<Rightarrow> ''None'' | Some x \<Rightarrow> x)"

subsection \<open>\<^verbatim>\<open>upload_file\<close>\<close>

text \<open>\<^verbatim>\<open>file.filename.split(".")[-1] if "." in file.filename else file_type\<close>\<close>

definition file_ext_of :: "string \<Rightarrow> string \<Rightarrow> string" where
  "file_ext_of name file_type =
     (if CHR ''.'' \<in> set name then last (split_char CHR ''.'' name) else file_type)"

text \<open>\<^verbatim>\<open>f"users/{firebase_uid}/uploads/{file_id}.{file_ext}"\<close>\<close>

definition storage_path_of :: "string \<Rightarrow> string \<Rightarrow> string \<Rightarrow> string" where
  "storage_path_of firebase_uid file_id file_ext =
     ''users/'' @ firebase_uid @ ''/uploads/'' @ file_id @ ''.'' @ file_ext"

text \<open>The body of the \<^verbatim>\<open>try\<close>: \<open>Inl\<close> carries \<^verbatim>\<open>str(e)\<close> of the exception
  that left it, with the stores as they were at that point.\<close>

definition upload_file_try ::
  "env \<Rightarrow> UploadFile \<Rightarrow> bool \<Rightarrow> string \<Rightarrow> string \<Rightarrow> string \<Rightarrow> string \<Rightarrow> stores
     \<Rightarrow> (string + FileUploadResponse \<times> task list) \<times> stores" where
  "upload_file_try e file background_tasks firebase_uid file_id file_type storage_path s =
     (case storage_failure e of
        Some err \<Rightarrow> (Inl err, s)
      | None \<Rightarrow>
          let s3 = s\<lparr>bucket := (bucket s)(storage_path \<mapsto> content file)\<rparr> in
          (case files_insert_failure e of
             Some err \<Rightarrow> (Inl err, s3)
           | None \<Rightarrow>
               let s4 = s3\<lparr>files := files s3 @
                          [\<lparr>f_file_id = file_id, f_firebase_uid = firebase_uid,
                            f_file_name = filename file, f_file_type = file_type,
                            f_storage_path = storage_path, f_upload_time = db_now e\<rparr>]\<rparr> in
               (case metadata_insert_failure e of
                  Some err \<Rightarrow> (Inl err, s4)
                | None \<Rightarrow>
                    let s5 = s4\<lparr>documents_metadata := documents_metadata s4 @
                               [\<lparr>d_id = file_id, d_firebase_uid = firebase_uid\<rparr>]\<rparr>;
                        s6 = update_processing_status (clock e 1) firebase_uid file_id
                               ''uploaded'' 25 (Some ''File uploaded successfully'') s5
                    in (Inr (\<lparr>r_file_id = file_id, r_file_name = filename file,
                               r_file_type = file_type, r_storage_path = storage_path,
                               r_status = ''processing''\<rparr>,
                             if background_tasks
                             then [ProcessFile firebase_uid file_id storage_path file_type]
                             else []),
                        s6))))"

text \<open>The handler. \<open>background_tasks\<close> says whether the parameter
  \<^verbatim>\<open>background_tasks\<close> is an object (the framework passes one on every
  request) or the default \<^verbatim>\<open>None\<close>.\<close>

definition upload_file ::
  "env \<Rightarrow> UploadFile \<Rightarrow> bool \<Rightarrow> firebase_user \<Rightarrow> stores
     \<Rightarrow> (http_error + FileUploadResponse \<times> task list) \<times> stores" where
  "upload_file e file background_tasks user s =
     (let firebase_uid = user_uid user;
          s1 = ensure_user_profile firebase_uid (user_email user) s
      in case supported_type (content_type file) of
           None \<Rightarrow>
             (Inl (HTTPException 400
                (''Unsupported file type: '' @ py_format (content_type file))), s1)
         | Some file_type \<Rightarrow>
             let file_id = new_uuid e;
                 storage_path =
                   storage_path_of firebase_uid file_id (file_ext_of (filename file) file_type);
                 s2 = update_processing_status (clock e 0) firebase_uid file_id
                        ''uploading'' 10 (Some ''Uploading file...'') s1
             in (case upload_file_try e file background_tasks firebase_uid file_id file_type
                        storage_path s2 of
                   (Inr r, s') \<Rightarrow> (Inr r, s')
                 | (Inl err, s') \<Rightarrow>
                     (Inl (HTTPException 500 err),
                      update_processing_status (clock e 1) firebase_uid file_id
                        ''error'' 0 (Some err) s')))"

subsection \<open>\<^verbatim>\<open>upload_url\<close> and \<^verbatim>\<open>upload_text\<close>\<close>

text \<open>The two inserts both handlers make, outside any \<^verbatim>\<open>try\<close>: an exception
  (its text is the first component) leaves the handler, keeping what was inserted
  before it.\<close>

definition insert_metadata :: "env \<Rightarrow> file_row \<Rightarrow> stores \<Rightarrow> string option \<times> stores" where
  "insert_metadata e metadata s =
     (case files_insert_failure e of
        Some err \<Rightarrow> (Some err, s)
      | None \<Rightarrow>
          let s' = s\<lparr>files := files s @ [metadata]\<rparr> in
          (case metadata_insert_failure e of
             Some err \<Rightarrow> (Some err, s')
           | None \<Rightarrow>
               (None,
                s'\<lparr>documents_metadata := documents_metadata s' @
                     [\<lparr>d_id = f_file_id metadata,
                       d_firebase_uid = f_firebase_uid metadata\<rparr>]\<rparr>)))"

definition upload_url ::
  "env \<Rightarrow> URLUploadRequest \<Rightarrow> firebase_user \<Rightarrow> stores
     \<Rightarrow> (http_error + FileUploadResponse \<times> task list) \<times> stores" where
  "upload_url e request user s =
     (let firebase_uid = user_uid user;
          s1 = ensure_user_profile firebase_uid (user_email user) s;
          file_id = new_uuid e;
          file_name = py_or (u_title request) (take 100 (u_url request));
          metadata = \<lparr>f_file_id = file_id, f_firebase_uid = firebase_uid,
                      f_file_name = file_name, f_file_type = ''url'',
                      f_storage_path = u_url request, f_upload_time = db_now e\<rparr>
      in case insert_metadata e metadata s1 of
           (Some err, s2) \<Rightarrow> (Inl (Unhandled err), s2)
         | (None, s2) \<Rightarrow>
             (Inr (\<lparr>r_file_id = file_id, r_file_name = file_name, r_file_type = ''url'',
                     r_storage_path = u_url request, r_status = ''processing''\<rparr>,
                   [ProcessUrl firebase_uid file_id (u_url request)]),
              update_processing_status (clock e 0) firebase_uid file_id
                ''extracting'' 30 (Some ''Extracting content from URL...'') s2))"

text \<open>\<^verbatim>\<open>str.isspace\<close> on the code points below 256, and \<^verbatim>\<open>str.strip()\<close>.\<close>

definition py_isspace :: "char \<Rightarrow> bool" where
  "py_isspace c =
     (c \<in> set [CHR 0x09, CHR 0x0A, CHR 0x0B, CHR 0x0C, CHR 0x0D, CHR 0x1C, CHR 0x1D,
               CHR 0x1E, CHR 0x1F, CHR 0x20, CHR 0x85, CHR 0xA0])"

definition py_strip :: "string \<Rightarrow> string" where
  "py_strip x = rev (dropWhile py_isspace (rev (dropWhile py_isspace x)))"

text \<open>\<^verbatim>\<open>request.text[:50].strip().replace('\n', ' ')\<close>\<close>

definition text_preview :: "string \<Rightarrow> string" where
  "text_preview x = map (\<lambda>c. if c = CHR 0x0A then CHR 0x20 else c) (py_strip (take 50 x))"

definition upload_text ::
  "env \<Rightarrow> TextUploadRequest \<Rightarrow> firebase_user \<Rightarrow> stores
     \<Rightarrow> (http_error + FileUploadResponse \<times> task list) \<times> stores" where
  "upload_text e request user s =
     (let firebase_uid = user_uid user;
          s1 = ensure_user_profile firebase_uid (user_email user) s;
          file_id = new_uuid e;
          title = py_or (t_title request)
                    (''Text Note: '' @ text_preview (t_text request) @ ''...'');
          metadata = \<lparr>f_file_id = file_id, f_firebase_uid = firebase_uid,
                      f_file_name = title, f_file_type = ''url'',
                      f_storage_path = ''text://'' @ file_id, f_upload_time = db_now e\<rparr>
      in case insert_metadata e metadata s1 of
           (Some err, s2) \<Rightarrow> (Inl (Unhandled err), s2)
         | (None, s2) \<Rightarrow>
             (Inr (\<lparr>r_file_id = file_id, r_file_name = title, r_file_type = ''url'',
                     r_storage_path = ''text://'' @ file_id, r_status = ''processing''\<rparr>,
                   [ProcessText firebase_uid file_id (t_text request) title]),
              update_processing_status (clock e 0) firebase_uid file_id
                ''summarizing'' 50 (Some ''Generating summary...'') s2))"

subsection \<open>\<^verbatim>\<open>get_materials\<close> and \<^verbatim>\<open>get_summary\<close>\<close>

text \<open>\<^verbatim>\<open>.order(column, desc=True)\<close> on an integer column. Rows with equal keys
  keep their order here; the database promises no order among them.\<close>

definition order_desc :: "('a \<Rightarrow> int) \<Rightarrow> 'a list \<Rightarrow> 'a list" where
  "order_desc key rows = sort_key (\<lambda>r. - key r) rows"

text \<open>The query both handlers send to \<^verbatim>\<open>summaries\<close>:
  \<^verbatim>\<open>.eq("document_id", file_id).order("version", desc=True).limit(1)\<close>\<close>

definition summary_result :: "string \<Rightarrow> stores \<Rightarrow> summary_row list" where
  "summary_result file_id s =
     take 1 (order_desc s_version (filter (\<lambda>r. s_document_id r = file_id) (summaries s)))"

record material =
  m_file_id :: string
  m_file_name :: string
  m_file_type :: string
  m_storage_path :: string
  m_upload_time :: int
  m_has_summary :: bool
  m_latest_summary :: "string option"

text \<open>The body of the loop over \<^verbatim>\<open>files_result.data\<close>: one query and one
  entry per file.\<close>

definition material_of :: "stores \<Rightarrow> file_row \<Rightarrow> material" where
  "material_of s file =
     (let result = summary_result (f_file_id file) s in
      \<lparr>m_file_id = f_file_id file, m_file_name = f_file_name file,
       m_file_type = f_file_type file, m_storage_path = f_storage_path file,
       m_upload_time = f_upload_time file,
       m_has_summary = (length result > 0),
       m_latest_summary =
         (case result of [] \<Rightarrow> None | r # _ \<Rightarrow> Some (s_summary_text r))\<rparr>)"

definition get_materials :: "string \<Rightarrow> stores \<Rightarrow> material list" where
  "get_materials firebase_uid s =
     map (material_of s)
       (order_desc f_upload_time
          (filter (\<lambda>f. f_firebase_uid f = firebase_uid) (files s)))"

record SummaryResponse =
  sr_id :: string
  sr_document_id :: string
  sr_summary_text :: string
  sr_version :: int
  sr_created_at :: int

definition summary_response :: "summary_row \<Rightarrow> SummaryResponse" where
  "summary_response summary =
     \<lparr>sr_id = s_id summary, sr_document_id = s_document_id summary,
      sr_summary_text = s_summary_text summary, sr_version = s_version summary,
      sr_created_at = s_created_at summary\<rparr>"

definition get_summary :: "string \<Rightarrow> string \<Rightarrow> stores \<Rightarrow> http_error + SummaryResponse" where
  "get_summary file_id firebase_uid s =
     (case filter (\<lambda>f. f_file_id f = file_id) (files s) of
        [] \<Rightarrow> Inl (HTTPException 404 ''File not found'')
      | file # _ \<Rightarrow>
          if f_firebase_uid file \<noteq> firebase_uid
          then Inl (HTTPException 403 ''Access denied'')
          else
            (case summary_result file_id s of
               [] \<Rightarrow> Inl (HTTPException 404 ''Summary not found'')
             | summary # _ \<Rightarrow> Inr (summary_response summary)))"

subsection \<open>The background tasks\<close>

text \<open>
  \<^verbatim>\<open>process_file_background\<close>, \<^verbatim>\<open>process_url_background\<close> and
  \<^verbatim>\<open>process_text_background\<close> only forward to \<^verbatim>\<open>process_file\<close>,
  \<^verbatim>\<open>process_url\<close> and \<^verbatim>\<open>process_text\<close> of the module
  \<^verbatim>\<open>extractors\<close>. What these three do is taken from section 4.4 of the
  specification; the extractors, the URL reader and the summarizer are capabilities
  given from outside, each answering with a text or with the description of its failure.
\<close>

record capabilities =
  extract_text :: "string \<Rightarrow> string \<Rightarrow> string + string"
  read_url :: "string \<Rightarrow> string + string"
  summarize :: "string \<Rightarrow> string + string"
  missing_content :: "string \<Rightarrow> string"
  summary_uuid :: string
  summary_now :: int
  task_clock :: "nat \<Rightarrow> instant"

text \<open>Modelled from the spec: the versioning rule of \<^verbatim>\<open>append\<close> (section 4.4,
  step 5), the insert into \<^verbatim>\<open>summaries\<close> that \<^verbatim>\<open>extractors\<close> makes:
  the new row has version 1 + (current maximum version of this submission, or 0 if it
  has none).\<close>

definition append_summary :: "capabilities \<Rightarrow> string \<Rightarrow> string \<Rightarrow> stores \<Rightarrow> stores" where
  "append_summary caps file_id summary_text s =
     s\<lparr>summaries := summaries s @
         [\<lparr>s_id = summary_uuid caps, s_document_id = file_id,
           s_summary_text = summary_text,
           s_version = 1 + (case summary_result file_id s of [] \<Rightarrow> 0 | r # _ \<Rightarrow> s_version r),
           s_created_at = summary_now caps\<rparr>]\<rparr>"

text \<open>Modelled from the spec: steps 4 to 6 of section 4.4, where all kinds converge and
  which \<^verbatim>\<open>extractors\<close> implements: invoke the summarizer; on failure write
  \<open>error(0)\<close> with the failure description and stop; otherwise insert the Summary row
  and write \<open>complete(100)\<close>. The write of \<open>summarizing\<close> is left to the caller,
  since for the text kind the intake has already made it (with progress 50).\<close>

definition summarize_and_persist ::
  "capabilities \<Rightarrow> nat \<Rightarrow> string \<Rightarrow> string \<Rightarrow> string \<Rightarrow> stores \<Rightarrow> stores" where
  "summarize_and_persist caps k firebase_uid file_id body s =
     (case summarize caps body of
        Inl failure \<Rightarrow>
          update_processing_status (task_clock caps k) firebase_uid file_id
            ''error'' 0 (Some failure) s
      | Inr summary_text \<Rightarrow>
          update_processing_status (task_clock caps k) firebase_uid file_id
            ''complete'' 100 None (append_summary caps file_id summary_text s))"

text \<open>Modelled from the spec: \<^verbatim>\<open>process_text\<close> of \<^verbatim>\<open>extractors\<close>, the
  text kind of section 4.4: the input text is used directly, there is no extraction
  stage; the sequence is \<open>summarizing(50)\<close> (written by the intake), then
  \<open>complete(100)\<close>.\<close>

definition process_text ::
  "capabilities \<Rightarrow> string \<Rightarrow> string \<Rightarrow> string \<Rightarrow> string \<Rightarrow> stores \<Rightarrow> stores" where
  "process_text caps firebase_uid file_id body title s =
     summarize_and_persist caps 0 firebase_uid file_id body s"

text \<open>Modelled from the spec: \<^verbatim>\<open>process_url\<close> of \<^verbatim>\<open>extractors\<close>, the
  URL kind of section 4.4: invoke the content reader on the URL; on failure write
  \<open>error(0)\<close> and stop; then \<open>summarizing(70)\<close> and the common steps. The stage
  \<open>extracting(30)\<close> was written by the intake.\<close>

definition process_url ::
  "capabilities \<Rightarrow> string \<Rightarrow> string \<Rightarrow> string \<Rightarrow> stores \<Rightarrow> stores" where
  "process_url caps firebase_uid file_id url s =
     (case read_url caps url of
        Inl failure \<Rightarrow>
          update_processing_status (task_clock caps 0) firebase_uid file_id
            ''error'' 0 (Some failure) s
      | Inr body \<Rightarrow>
          summarize_and_persist caps 1 firebase_uid file_id body
            (update_processing_status (task_clock caps 0) firebase_uid file_id
               ''summarizing'' 70 None s))"

text \<open>Modelled from the spec: \<^verbatim>\<open>process_file\<close> of \<^verbatim>\<open>extractors\<close>, the
  binary-file kind of section 4.4: fetch the raw bytes from the content store at the
  recorded locator; advance the status to \<open>extracting(40)\<close>; dispatch to the
  extractor of the kind; on failure write \<open>error(0)\<close> and stop (no Summary row is
  written); then \<open>summarizing(70)\<close> and the common steps.\<close>

definition process_file ::
  "capabilities \<Rightarrow> string \<Rightarrow> string \<Rightarrow> string \<Rightarrow> string \<Rightarrow> stores \<Rightarrow> stores" where
  "process_file caps firebase_uid file_id storage_path file_type s =
     (case bucket s storage_path of
        None \<Rightarrow>
          update_processing_status (task_clock caps 0) firebase_uid file_id
            ''error'' 0 (Some (missing_content caps storage_path)) s
      | Some raw \<Rightarrow>
          let s1 = update_processing_status (task_clock caps 0) firebase_uid file_id
                     ''extracting'' 40 None s
          in (case extract_text caps file_type raw of
                Inl failure \<Rightarrow>
                  update_processing_status (task_clock caps 1) firebase_uid file_id
                    ''error'' 0 (Some failure) s1
              | Inr body \<Rightarrow>
                  summarize_and_persist caps 2 firebase_uid file_id body
                    (update_processing_status (task_clock caps 1) firebase_uid file_id
                       ''summarizing'' 70 None s1)))"

text \<open>Running what \<^verbatim>\<open>add_task\<close> recorded, after the response has been sent.\<close>

fun run_task :: "capabilities \<Rightarrow> task \<Rightarrow> stores \<Rightarrow> stores" where
  "run_task caps (ProcessFile firebase_uid file_id storage_path file_type) s =
     process_file caps firebase_uid file_id storage_path file_type s"
| "run_task caps (ProcessUrl firebase_uid file_id url) s =
     process_url caps firebase_uid file_id url s"
| "run_task caps (ProcessText firebase_uid file_id body title) s =
     process_text caps firebase_uid file_id body title s"


subsection \<open>An example state\<close>

text \<open>Two users; the summaries of \<open>f1\<close> were written out of order, version 2
  before version 1.\<close>

definition example_stores :: stores where
  "example_stores =
     empty_stores\<lparr>
       files :=
         [\<lparr>f_file_id = ''f1'', f_firebase_uid = ''u1'', f_file_name = ''a.pdf'',
           f_file_type = ''pdf'', f_storage_path = ''users/u1/uploads/f1.pdf'',
           f_upload_time = 10\<rparr>,
          \<lparr>f_file_id = ''f2'', f_firebase_uid = ''u2'', f_file_name = ''a.pdf'',
           f_file_type = ''pdf'', f_storage_path = ''users/u2/uploads/f2.pdf'',
           f_upload_time = 20\<rparr>,
          \<lparr>f_file_id = ''f3'', f_firebase_uid = ''u1'', f_file_name = ''note'',
           f_file_type = ''url'', f_storage_path = ''text://f3'', f_upload_time = 30\<rparr>],
       summaries :=
         [\<lparr>s_id = ''s2'', s_document_id = ''f1'', s_summary_text = ''second'',
           s_version = 2, s_created_at = 200\<rparr>,
          \<lparr>s_id = ''s1'', s_document_id = ''f1'', s_summary_text = ''first'',
           s_version = 1, s_created_at = 300\<rparr>]\<rparr>"

subsection \<open>An example request\<close>

text \<open>The shape of \<^verbatim>\<open>str(uuid.uuid4())\<close>: 36 characters, lower-case hexadecimal
  digits in groups of 8, 4, 4, 4 and 12 separated by hyphens.\<close>

definition uuid_str :: "string \<Rightarrow> bool" where
  "uuid_str x =
     (map (\<lambda>c. if c \<in> set ''0123456789abcdef'' then CHR ''x'' else c) x
        = ''xxxxxxxx-xxxx-xxxx-xxxx-xxxxxxxxxxxx'')"

definition example_env :: env where
  "example_env =
     \<lparr>new_uuid = ''00000000-0000-4000-8000-000000000001'',
      clock = (\<lambda>k. \<lparr>utcnow = 1000 + int k, server_timestamp = 1000 + int k\<rparr>),
      db_now = 1000,
      storage_failure = None, files_insert_failure = None,
      metadata_insert_failure = None\<rparr>"

definition example_upload :: UploadFile where
  "example_upload =
     \<lparr>filename = ''notes.pdf'', content_type = Some ''application/pdf'',
      content = ''%PDF-1.7''\<rparr>"

definition example_user :: firebase_user where
  "example_user = \<lparr>user_uid = ''u1'', user_email = Some ''a@b.c''\<rparr>"

text \<open>The pairing of the two tables: the same (identifier, owner) pairs in both.\<close>

definition tables_paired :: "stores \<Rightarrow> bool" where
  "tables_paired s =
     ((\<lambda>f. (f_file_id f, f_firebase_uid f)) ` set (files s)
        = (\<lambda>d. (d_id d, d_firebase_uid d)) ` set (documents_metadata s))"

subsection \<open>Status documents: fields, expiry, an example validation\<close>

text \<open>A field of a stored document that is absent or holds a value the conversion
  accepts.\<close>

definition field_typed :: "(fs_value \<Rightarrow> 'a option) \<Rightarrow> fs_value option \<Rightarrow> bool" where
  "field_typed conv v = (case v of None \<Rightarrow> True | Some x \<Rightarrow> conv x \<noteq> None)"

text \<open>Every stored status document has the fields \<^verbatim>\<open>status\<close> and
  \<^verbatim>\<open>progress\<close>.\<close>

definition has_status_fields :: "stores \<Rightarrow> bool" where
  "has_status_fields s =
     (\<forall>f data. processing_status s f = Some data \<longrightarrow>
        data ''status'' \<noteq> None \<and> data ''progress'' \<noteq> None)"

text \<open>The collection holds a document for the identifier whose \<^verbatim>\<open>expire_at\<close> lies
  before the time \<open>now\<close>.\<close>

definition expired_at :: "int \<Rightarrow> stores \<Rightarrow> string \<Rightarrow> bool" where
  "expired_at now s file_id =
     (case processing_status s file_id of
        None \<Rightarrow> False
      | Some data \<Rightarrow>
          (case data ''expire_at'' of Some (Timestamp x) \<Rightarrow> x < now | _ \<Rightarrow> False))"

text \<open>An example of the parameter: strings of decimal digits are accepted as integers,
  values of the declared types as they are, everything else is refused.\<close>

definition decimal :: "string \<Rightarrow> int option" where
  "decimal x =
     (if x \<noteq> [] \<and> list_all (\<lambda>c. c \<in> set ''0123456789'') x
      then Some (foldl (\<lambda>n c. 10 * n + (of_char c - 48)) 0 x)
      else None)"

definition example_validation :: validation where
  "example_validation =
     \<lparr>to_str = (\<lambda>x. case x of Str y \<Rightarrow> Some y | _ \<Rightarrow> None),
      to_int = (\<lambda>x. case x of Num i \<Rightarrow> Some i | Str y \<Rightarrow> decimal y | _ \<Rightarrow> None),
      to_optional_str =
        (\<lambda>x. case x of Str y \<Rightarrow> Some (Some y) | Null \<Rightarrow> Some None | _ \<Rightarrow> None)\<rparr>"

text \<open>Every (identifier, owner) pair of \<^verbatim>\<open>documents_metadata\<close> is one of
  \<^verbatim>\<open>files\<close>.\<close>

definition metadata_covered :: "stores \<Rightarrow> bool" where
  "metadata_covered s =
     ((\<lambda>d. (d_id d, d_firebase_uid d)) ` set (documents_metadata s)
        \<subseteq> (\<lambda>f. (f_file_id f, f_firebase_uid f)) ` set (files s))"

subsection \<open>The status sequences of section 4.4\<close>






subsection \<open>Example capabilities and requests\<close>

definition example_caps :: capabilities where
  "example_caps =
     \<lparr>extract_text = (\<lambda>t raw. if raw = [] then Inl ''empty document'' else Inr raw),
      read_url = (\<lambda>u. if u = [] then Inl ''no URL'' else Inr ''page text''),
      summarize = (\<lambda>b. if b = [] then Inl ''nothing to summarize'' else Inr (take 20 b)),
      missing_content = (\<lambda>p. ''no such object: '' @ p),
      summary_uuid = ''00000000-0000-4000-8000-0000000000aa'',
      summary_now = 2000,
      task_clock = (\<lambda>k. \<lparr>utcnow = 2000 + int k, server_timestamp = 2000 + int k\<rparr>)\<rparr>"

definition example_url_request :: URLUploadRequest where
  "example_url_request = \<lparr>u_url = ''https://example.org/cell'', u_title = None\<rparr>"

definition example_text_request :: TextUploadRequest where
  "example_text_request =
     \<lparr>t_text = ''The mitochondria is the powerhouse of the cell'', t_title = None\<rparr>"

subsection \<open>Everything that writes to the stores\<close>

text \<open>One step of the system: a call of one of the three intake handlers (with what it
  gets from outside), the run of a scheduled background task, or a call of
  \<^verbatim>\<open>ensure_user_profile\<close> alone. The read handlers write nothing.\<close>

datatype request =
    FileUpload env UploadFile bool firebase_user
  | UrlUpload env URLUploadRequest firebase_user
  | TextUpload env TextUploadRequest firebase_user
  | Background capabilities task
  | EnsureProfile string "string option"

fun serve :: "request \<Rightarrow> stores \<Rightarrow> stores" where
  "serve (FileUpload e upl background_tasks user) s =
     snd (upload_file e upl background_tasks user s)"
| "serve (UrlUpload e request user) s = snd (upload_url e request user s)"
| "serve (TextUpload e request user) s = snd (upload_text e request user s)"
| "serve (Background caps t) s = run_task caps t s"
| "serve (EnsureProfile firebase_uid email) s = ensure_user_profile firebase_uid email s"

text \<open>A step whose insert into \<^verbatim>\<open>documents_metadata\<close>, if it comes to it, does not
  raise.\<close>

fun second_insert_ok :: "request \<Rightarrow> bool" where
  "second_insert_ok (FileUpload e upl background_tasks user) =
     (metadata_insert_failure e = None)"
| "second_insert_ok (UrlUpload e request user) = (metadata_insert_failure e = None)"
| "second_insert_ok (TextUpload e request user) = (metadata_insert_failure e = None)"
| "second_insert_ok (Background caps t) = True"
| "second_insert_ok (EnsureProfile firebase_uid email) = True"

section \<open>Properties\<close>

subsection \<open>The user profile\<close>

lemma filter_uid_empty:
  "(filter (\<lambda>p. p_firebase_uid p = uid) ps = []) = (uid \<notin> p_firebase_uid ` set ps)"
  by (auto simp: filter_empty_conv)

lemma ensure_absent:
  "uid \<notin> p_firebase_uid ` set (users_profile s) \<Longrightarrow>
   ensure_user_profile uid email s =
     s\<lparr>users_profile := users_profile s @
        [\<lparr>p_firebase_uid = uid, p_email = email, p_display_name = None,
          p_preferences = []\<rparr>]\<rparr>"
  using filter_uid_empty[of uid "users_profile s"]
  by (simp add: ensure_user_profile_def)

lemma filter_distinct_key:
  "distinct (map k ps) \<Longrightarrow> r \<in> set ps \<Longrightarrow> filter (\<lambda>p. k p = k r) ps = [r]"
proof (induction ps)
  case Nil
  then show ?case by simp
next
  case (Cons a ps)
  show ?case
  proof (cases "a = r")
    case True
    with Cons.prems have "\<forall>p\<in>set ps. k p \<noteq> k r"
      by (auto simp: image_iff)
    then have "filter (\<lambda>p. k p = k r) ps = []"
      by (simp add: filter_empty_conv)
    with True show ?thesis by simp
  next
    case False
    with Cons.prems have "r \<in> set ps" "k a \<noteq> k r"
      by (auto simp: image_iff)
    with Cons show ?thesis by simp
  qed
qed

lemma ensure_present:
  assumes "distinct (map p_firebase_uid (users_profile s))" "r \<in> set (users_profile s)"
    "p_firebase_uid r = uid"
  shows "ensure_user_profile uid email s =
     (if truthy email \<and> \<not> truthy (p_email r)
      then s\<lparr>users_profile :=
             map (\<lambda>p. if p = r then r\<lparr>p_email := email\<rparr> else p) (users_profile s)\<rparr>
      else s)"
proof -
  have f: "filter (\<lambda>p. p_firebase_uid p = uid) (users_profile s) = [r]"
    using filter_distinct_key[OF assms(1,2)] assms(3) by simp
  have m: "map (\<lambda>p. if p_firebase_uid p = uid then p\<lparr>p_email := email\<rparr> else p)
             (users_profile s)
         = map (\<lambda>p. if p = r then r\<lparr>p_email := email\<rparr> else p) (users_profile s)"
  proof (rule map_cong[OF refl])
    fix p assume p: "p \<in> set (users_profile s)"
    have "p_firebase_uid p = uid \<longleftrightarrow> p = r"
      using assms p by (metis distinct_map inj_onD)
    then show "(if p_firebase_uid p = uid then p\<lparr>p_email := email\<rparr> else p)
             = (if p = r then r\<lparr>p_email := email\<rparr> else p)"
      by auto
  qed
  show ?thesis by (simp add: ensure_user_profile_def f m)
qed

lemma ensure_idem:
  "ensure_user_profile uid email (ensure_user_profile uid email s) =
   ensure_user_profile uid email s"
proof (cases "filter (\<lambda>p. p_firebase_uid p = uid) (users_profile s)")
  case Nil
  then show ?thesis by (simp add: ensure_user_profile_def)
next
  case (Cons r rs)
  show ?thesis
  proof (cases "truthy email \<and> \<not> truthy (p_email r)")
    case False
    with Cons show ?thesis by (auto simp add: ensure_user_profile_def)
  next
    case True
    have "filter (\<lambda>p. p_firebase_uid p = uid)
            (map (\<lambda>p. if p_firebase_uid p = uid then p\<lparr>p_email := email\<rparr> else p)
               (users_profile s))
          = map (\<lambda>p. p\<lparr>p_email := email\<rparr>)
              (filter (\<lambda>p. p_firebase_uid p = uid) (users_profile s))"
      by (induction "users_profile s" arbitrary: s) (auto simp: filter_map comp_def)
    with Cons True show ?thesis by (simp add: ensure_user_profile_def)
  qed
qed

lemma ensure_distinct:
  assumes d: "distinct (map p_firebase_uid (users_profile s))"
  shows "distinct (map p_firebase_uid (users_profile (ensure_user_profile uid email s)))"
proof -
  have m: "map p_firebase_uid
             (map (\<lambda>p. if p_firebase_uid p = uid then p\<lparr>p_email := email\<rparr> else p) ps)
           = map p_firebase_uid ps" for ps
    by (induction ps) auto
  show ?thesis
    using d filter_uid_empty[of uid "users_profile s"]
    by (auto simp del: map_map simp: ensure_user_profile_def m split: list.splits)
qed

lemma ensure_other_stores:
  "files (ensure_user_profile uid email s) = files s \<and>
   documents_metadata (ensure_user_profile uid email s) = documents_metadata s \<and>
   summaries (ensure_user_profile uid email s) = summaries s \<and>
   processing_status (ensure_user_profile uid email s) = processing_status s \<and>
   bucket (ensure_user_profile uid email s) = bucket s \<and>
   status_log (ensure_user_profile uid email s) = status_log s"
  by (simp add: ensure_user_profile_def split: list.splits)

subsection \<open>Ordering and the latest summary\<close>

lemma order_desc_set: "set (order_desc key rows) = set rows"
  by (simp add: order_desc_def)

lemma order_desc_mset: "mset (order_desc key rows) = mset rows"
  by (simp add: order_desc_def)

lemma order_desc_sorted: "sorted_wrt (\<lambda>a b. key b \<le> key a) (order_desc key rows)"
proof -
  have "sorted (map (\<lambda>r. - key r) (order_desc key rows))"
    by (simp add: order_desc_def)
  then show ?thesis
    by (simp add: sorted_map sorted_wrt_iff_nth_less)
qed

lemma order_desc_head:
  assumes "order_desc key rows = r # rs"
  shows "r \<in> set rows \<and> (\<forall>r' \<in> set rows. key r' \<le> key r)"
proof -
  have "set (r # rs) = set rows"
    using order_desc_set[of key rows] assms by simp
  moreover have "sorted_wrt (\<lambda>a b. key b \<le> key a) (r # rs)"
    using order_desc_sorted[of key rows] assms by simp
  ultimately show ?thesis by auto
qed

lemma summary_result_empty:
  "(summary_result file_id s = []) = (file_id \<notin> s_document_id ` set (summaries s))"
proof -
  have "(order_desc s_version (filter (\<lambda>r. s_document_id r = file_id) (summaries s)) = [])
      = (filter (\<lambda>r. s_document_id r = file_id) (summaries s) = [])"
    using order_desc_set[of s_version "filter (\<lambda>r. s_document_id r = file_id) (summaries s)"]
    by (metis set_empty)
  then show ?thesis
    by (auto simp: summary_result_def filter_empty_conv)
qed

lemma summary_result_latest:
  assumes "summary_result file_id s = r # rs"
  shows "rs = [] \<and> r \<in> set (summaries s) \<and> s_document_id r = file_id \<and>
         (\<forall>r' \<in> set (summaries s). s_document_id r' = file_id \<longrightarrow> s_version r' \<le> s_version r)"
proof -
  obtain ys where o: "order_desc s_version (filter (\<lambda>r. s_document_id r = file_id) (summaries s)) = r # ys"
    using assms by (cases "order_desc s_version (filter (\<lambda>r. s_document_id r = file_id) (summaries s))")
      (auto simp: summary_result_def)
  have "rs = []" using assms o by (simp add: summary_result_def)
  with order_desc_head[OF o] show ?thesis by auto
qed


lemma filter_file_id_empty:
  "(filter (\<lambda>f. f_file_id f = file_id) fs = []) = (file_id \<notin> f_file_id ` set fs)"
  by (auto simp: filter_empty_conv)




lemma get_summary_Inr:
  assumes "get_summary file_id uid s = Inr resp"
  shows "\<exists>r \<in> set (summaries s). s_document_id r = file_id \<and> resp = summary_response r \<and>
     (\<forall>r' \<in> set (summaries s). s_document_id r' = file_id \<longrightarrow> s_version r' \<le> s_version r)"
proof -
  from assms obtain r rs where r: "summary_result file_id s = r # rs" and "resp = summary_response r"
    by (auto simp: get_summary_def split: list.splits if_splits)
  with summary_result_latest[OF r] show ?thesis by blast
qed

lemma material_of_latest:
  "m_has_summary (material_of s f) = (f_file_id f \<in> s_document_id ` set (summaries s))
   \<and> m_has_summary (material_of s f) = (m_latest_summary (material_of s f) \<noteq> None)
   \<and> (\<forall>body. m_latest_summary (material_of s f) = Some body \<longrightarrow>
        (\<exists>r \<in> set (summaries s). s_document_id r = f_file_id f \<and> s_summary_text r = body \<and>
           (\<forall>r' \<in> set (summaries s). s_document_id r' = f_file_id f \<longrightarrow> s_version r' \<le> s_version r)))"
proof (cases "summary_result (f_file_id f) s")
  case Nil
  with summary_result_empty[of "f_file_id f" s] show ?thesis
    by (simp add: material_of_def)
next
  case (Cons r rs)
  with summary_result_empty[of "f_file_id f" s] summary_result_latest[OF Cons]
  show ?thesis by (auto simp: material_of_def)
qed

lemma material_of_fields:
  "m_file_id (material_of s f) = f_file_id f \<and> m_file_name (material_of s f) = f_file_name f
   \<and> m_file_type (material_of s f) = f_file_type f
   \<and> m_storage_path (material_of s f) = f_storage_path f
   \<and> m_upload_time (material_of s f) = f_upload_time f"
  by (simp add: material_of_def Let_def)

lemma get_materials_owned:
  "mset (map (\<lambda>m. (m_file_id m, m_file_name m, m_file_type m, m_storage_path m, m_upload_time m)) (get_materials uid s))
   = mset (map (\<lambda>f. (f_file_id f, f_file_name f, f_file_type f, f_storage_path f, f_upload_time f))
        (filter (\<lambda>f. f_firebase_uid f = uid) (files s)))"
proof -
  have "map (\<lambda>m. (m_file_id m, m_file_name m, m_file_type m, m_storage_path m, m_upload_time m)) (get_materials uid s)
     = map (\<lambda>f. (f_file_id f, f_file_name f, f_file_type f, f_storage_path f, f_upload_time f))
        (order_desc f_upload_time (filter (\<lambda>f. f_firebase_uid f = uid) (files s)))"
    by (simp add: get_materials_def material_of_fields comp_def)
  then have "mset (map (\<lambda>m. (m_file_id m, m_file_name m, m_file_type m, m_storage_path m, m_upload_time m)) (get_materials uid s))
     = image_mset (\<lambda>f. (f_file_id f, f_file_name f, f_file_type f, f_storage_path f, f_upload_time f))
        (mset (order_desc f_upload_time (filter (\<lambda>f. f_firebase_uid f = uid) (files s))))"
    by simp
  also have "\<dots> = image_mset (\<lambda>f. (f_file_id f, f_file_name f, f_file_type f, f_storage_path f, f_upload_time f))
        (mset (filter (\<lambda>f. f_firebase_uid f = uid) (files s)))"
    by (simp only: order_desc_mset)
  finally show ?thesis by simp
qed

lemma get_materials_sorted:
  "sorted_wrt (\<lambda>a b. m_upload_time b \<le> m_upload_time a) (get_materials uid s)"
  using order_desc_sorted[of f_upload_time "filter (\<lambda>f. f_firebase_uid f = uid) (files s)"]
  by (simp add: get_materials_def sorted_wrt_map material_of_fields)


lemma example_files:
  "files example_stores =
         [\<lparr>f_file_id = ''f1'', f_firebase_uid = ''u1'', f_file_name = ''a.pdf'',
           f_file_type = ''pdf'', f_storage_path = ''users/u1/uploads/f1.pdf'',
           f_upload_time = 10\<rparr>,
          \<lparr>f_file_id = ''f2'', f_firebase_uid = ''u2'', f_file_name = ''a.pdf'',
           f_file_type = ''pdf'', f_storage_path = ''users/u2/uploads/f2.pdf'',
           f_upload_time = 20\<rparr>,
          \<lparr>f_file_id = ''f3'', f_firebase_uid = ''u1'', f_file_name = ''note'',
           f_file_type = ''url'', f_storage_path = ''text://f3'', f_upload_time = 30\<rparr>]"
  by (simp add: example_stores_def empty_stores_def)

lemma example_summaries:
  "summaries example_stores =
         [\<lparr>s_id = ''s2'', s_document_id = ''f1'', s_summary_text = ''second'',
           s_version = 2, s_created_at = 200\<rparr>,
          \<lparr>s_id = ''s1'', s_document_id = ''f1'', s_summary_text = ''first'',
           s_version = 1, s_created_at = 300\<rparr>]"
  by (simp add: example_stores_def empty_stores_def)



lemma get_summary_owned:
  assumes "file_id \<in> f_file_id ` set (files s)"
    and "\<forall>f \<in> set (files s). f_file_id f = file_id \<longrightarrow> f_firebase_uid f = uid"
    and "file_id \<in> s_document_id ` set (summaries s)"
  shows "\<exists>resp. get_summary file_id uid s = Inr resp"
proof -
  from assms(1) obtain f fs where f: "filter (\<lambda>f. f_file_id f = file_id) (files s) = f # fs"
    using filter_file_id_empty[of file_id "files s"]
    by (cases "filter (\<lambda>f. f_file_id f = file_id) (files s)") auto
  then have "f \<in> set (filter (\<lambda>f. f_file_id f = file_id) (files s))" by simp
  with assms(2) have o: "f_firebase_uid f = uid" by simp
  from assms(3) obtain r rs where "summary_result file_id s = r # rs"
    using summary_result_empty[of file_id s] by (cases "summary_result file_id s") auto
  with f o show ?thesis by (simp add: get_summary_def)
qed

text \<open>
  C5. In every state of the \<^verbatim>\<open>summaries\<close> table, the summary that
  \<^verbatim>\<open>get_summary\<close> returns, and the text that \<^verbatim>\<open>get_materials\<close> joins
  to a file, come from a row of that identifier whose version is the maximum over the
  rows of that identifier, wherever that row stands in the order of writing; both return
  one whenever a row exists (for \<^verbatim>\<open>get_summary\<close>: when the caller owns the file).
\<close>

theorem latest_is_max_version:
  "(file_id \<in> f_file_id ` set (files s)
      \<and> (\<forall>f \<in> set (files s). f_file_id f = file_id \<longrightarrow> f_firebase_uid f = uid)
      \<and> file_id \<in> s_document_id ` set (summaries s)
      \<longrightarrow> (\<exists>resp. get_summary file_id uid s = Inr resp))
   \<and> (\<forall>resp. get_summary file_id uid s = Inr resp \<longrightarrow>
         (\<exists>r \<in> set (summaries s).
            s_document_id r = file_id \<and> resp = summary_response r
            \<and> (\<forall>r' \<in> set (summaries s).
                  s_document_id r' = file_id \<longrightarrow> s_version r' \<le> s_version r)))
   \<and> (\<forall>m \<in> set (get_materials uid s).
         (m_latest_summary m = None) = (m_file_id m \<notin> s_document_id ` set (summaries s))
         \<and> (\<forall>body. m_latest_summary m = Some body \<longrightarrow>
              (\<exists>r \<in> set (summaries s).
                 s_document_id r = m_file_id m \<and> s_summary_text r = body
                 \<and> (\<forall>r' \<in> set (summaries s).
                       s_document_id r' = m_file_id m \<longrightarrow> s_version r' \<le> s_version r))))"
proof (intro conjI)
  show "file_id \<in> f_file_id ` set (files s)
      \<and> (\<forall>f \<in> set (files s). f_file_id f = file_id \<longrightarrow> f_firebase_uid f = uid)
      \<and> file_id \<in> s_document_id ` set (summaries s)
      \<longrightarrow> (\<exists>resp. get_summary file_id uid s = Inr resp)"
    using get_summary_owned[of file_id s uid] by blast
next
  show "\<forall>resp. get_summary file_id uid s = Inr resp \<longrightarrow>
         (\<exists>r \<in> set (summaries s).
            s_document_id r = file_id \<and> resp = summary_response r
            \<and> (\<forall>r' \<in> set (summaries s).
                  s_document_id r' = file_id \<longrightarrow> s_version r' \<le> s_version r))"
    using get_summary_Inr[of file_id uid s] by blast
next
  show "\<forall>m \<in> set (get_materials uid s).
         (m_latest_summary m = None) = (m_file_id m \<notin> s_document_id ` set (summaries s))
         \<and> (\<forall>body. m_latest_summary m = Some body \<longrightarrow>
              (\<exists>r \<in> set (summaries s).
                 s_document_id r = m_file_id m \<and> s_summary_text r = body
                 \<and> (\<forall>r' \<in> set (summaries s).
                       s_document_id r' = m_file_id m \<longrightarrow> s_version r' \<le> s_version r)))"
  proof
    fix m assume "m \<in> set (get_materials uid s)"
    then obtain f where m: "m = material_of s f" by (auto simp: get_materials_def)
    from material_of_latest[of s f] material_of_fields[of s f]
    show "(m_latest_summary m = None) = (m_file_id m \<notin> s_document_id ` set (summaries s))
         \<and> (\<forall>body. m_latest_summary m = Some body \<longrightarrow>
              (\<exists>r \<in> set (summaries s).
                 s_document_id r = m_file_id m \<and> s_summary_text r = body
                 \<and> (\<forall>r' \<in> set (summaries s).
                       s_document_id r' = m_file_id m \<longrightarrow> s_version r' \<le> s_version r)))"
      unfolding m by (simp only:) blast
  qed
qed

lemma example_get_materials:
  "get_materials ''u1'' example_stores =
     [\<lparr>m_file_id = ''f3'', m_file_name = ''note'', m_file_type = ''url'',
       m_storage_path = ''text://f3'', m_upload_time = 30, m_has_summary = False,
       m_latest_summary = None\<rparr>,
      \<lparr>m_file_id = ''f1'', m_file_name = ''a.pdf'', m_file_type = ''pdf'',
       m_storage_path = ''users/u1/uploads/f1.pdf'', m_upload_time = 10,
       m_has_summary = True, m_latest_summary = Some ''second''\<rparr>]"
  by (simp add: get_materials_def material_of_def summary_result_def order_desc_def
      example_files example_summaries)

text \<open>Witness: in the example state version 1 was written after version 2;
  version 2 is returned.\<close>

theorem latest_is_max_version_witness:
  "map s_version (summaries example_stores) = [2, 1]
   \<and> map sr_version (case get_summary ''f1'' ''u1'' example_stores of Inl e \<Rightarrow> [] | Inr r \<Rightarrow> [r]) = [2]
   \<and> map m_latest_summary (get_materials ''u1'' example_stores) = [None, Some ''second'']"
proof -
  have v: "map s_version (summaries example_stores) = [2, 1]"
    by (simp add: example_summaries)
  obtain resp where r: "get_summary ''f1'' ''u1'' example_stores = Inr resp"
    using latest_is_max_version[of "''f1''" example_stores "''u1''"]
    by (auto simp: example_files example_summaries)
  then obtain row where row: "row \<in> set (summaries example_stores)" "resp = summary_response row"
      "\<forall>r' \<in> set (summaries example_stores). s_document_id r' = ''f1'' \<longrightarrow> s_version r' \<le> s_version row"
    using latest_is_max_version[of "''f1''" example_stores "''u1''"] by blast
  then have "s_version row = 2"
    by (auto simp: example_summaries)
  with row r have g: "map sr_version (case get_summary ''f1'' ''u1'' example_stores of Inl e \<Rightarrow> [] | Inr r \<Rightarrow> [r]) = [2]"
    by (simp add: summary_response_def)
  have "map m_latest_summary (get_materials ''u1'' example_stores) = [None, Some ''second'']"
    by (simp add: example_get_materials)
  with v g show ?thesis by blast
qed

text \<open>
  C7. \<^verbatim>\<open>get_materials\<close> returns the files of the caller and no others (as a
  multiset, with their name, type, locator and upload time), by upload time descending;
  \<open>has_summary\<close> of an entry is true exactly when a summary row exists for the file,
  exactly then the entry carries a summary text, and that text is the one of a row of
  maximum version.
\<close>

theorem get_materials_owned_sorted:
  "mset (map (\<lambda>m. (m_file_id m, m_file_name m, m_file_type m, m_storage_path m,
                   m_upload_time m)) (get_materials uid s))
     = mset (map (\<lambda>f. (f_file_id f, f_file_name f, f_file_type f, f_storage_path f,
                        f_upload_time f))
          (filter (\<lambda>f. f_firebase_uid f = uid) (files s)))
   \<and> sorted_wrt (\<lambda>a b. m_upload_time b \<le> m_upload_time a) (get_materials uid s)
   \<and> (\<forall>m \<in> set (get_materials uid s).
        m_has_summary m = (m_file_id m \<in> s_document_id ` set (summaries s))
        \<and> m_has_summary m = (m_latest_summary m \<noteq> None)
        \<and> (\<forall>body. m_latest_summary m = Some body \<longrightarrow>
             (\<exists>r \<in> set (summaries s).
                s_document_id r = m_file_id m \<and> s_summary_text r = body
                \<and> (\<forall>r' \<in> set (summaries s).
                      s_document_id r' = m_file_id m \<longrightarrow> s_version r' \<le> s_version r))))"
proof (intro conjI ballI)
  fix m assume "m \<in> set (get_materials uid s)"
  then obtain f where m: "m = material_of s f" by (auto simp: get_materials_def)
  from material_of_latest[of s f] material_of_fields[of s f]
  show "m_has_summary m = (m_file_id m \<in> s_document_id ` set (summaries s))"
    "m_has_summary m = (m_latest_summary m \<noteq> None)"
    "\<forall>body. m_latest_summary m = Some body \<longrightarrow>
             (\<exists>r \<in> set (summaries s).
                s_document_id r = m_file_id m \<and> s_summary_text r = body
                \<and> (\<forall>r' \<in> set (summaries s).
                      s_document_id r' = m_file_id m \<longrightarrow> s_version r' \<le> s_version r))"
    unfolding m by (simp_all only:) blast+
qed (rule get_materials_owned get_materials_sorted)+

text \<open>Witness: the two files of \<open>u1\<close> in the example state, newest first, and the
  one file of \<open>u2\<close>.\<close>

theorem get_materials_owned_sorted_witness:
  "map m_file_id (get_materials ''u1'' example_stores) = [''f3'', ''f1'']
   \<and> map m_upload_time (get_materials ''u1'' example_stores) = [30, 10]
   \<and> map m_has_summary (get_materials ''u1'' example_stores) = [False, True]
   \<and> sorted_wrt (\<lambda>a b. m_upload_time b \<le> m_upload_time a) (get_materials ''u1'' example_stores)
   \<and> map m_file_id (get_materials ''u2'' example_stores) = [''f2'']"
proof -
  have s: "sorted_wrt (\<lambda>a b. m_upload_time b \<le> m_upload_time a) (get_materials ''u1'' example_stores)"
    using get_materials_owned_sorted[of "''u1''" example_stores] by blast
  have "map m_file_id (get_materials ''u2'' example_stores) = [''f2'']"
    by (simp add: get_materials_def material_of_def summary_result_def order_desc_def
      example_files example_summaries)
  with s show ?thesis by (simp add: example_get_materials)
qed

subsection \<open>Intake: validation, the two metadata tables, storage paths\<close>

lemma split_char_nonempty: "split_char c xs \<noteq> []"
  by (induction xs) (auto split: list.splits)

lemma split_char_pieces: "w \<in> set (split_char c xs) \<Longrightarrow> c \<notin> set w"
proof (induction xs arbitrary: w)
  case Nil
  then show ?case by simp
next
  case (Cons x xs)
  then show ?case
    by (cases "split_char c xs") (auto split: if_splits)
qed

lemma supported_type_no_dot:
  "supported_type ct = Some t \<Longrightarrow> CHR ''.'' \<notin> set t"
proof -
  assume "supported_type ct = Some t"
  then obtain c where "map_of SUPPORTED_TYPES c = Some t"
    by (auto simp: supported_type_def split: option.splits)
  then have "t \<in> snd ` set SUPPORTED_TYPES"
    by (metis map_of_SomeD snd_conv image_eqI)
  then have "t \<in> {''pdf'', ''docx'', ''pptx'', ''image'', ''audio'', ''video''}"
    by (simp add: SUPPORTED_TYPES_def)
  then show ?thesis by auto
qed

lemma file_ext_no_dot:
  "CHR ''.'' \<notin> set t \<Longrightarrow> CHR ''.'' \<notin> set (file_ext_of name t)"
  using split_char_pieces[of "last (split_char CHR ''.'' name)" "CHR ''.''" name]
    split_char_nonempty[of "CHR ''.''" name]
  by (auto simp: file_ext_of_def)

lemma last_dot_unique:
  assumes "c \<notin> set a" "c \<notin> set b" "x @ c # a = y @ c # b"
  shows "a = b \<and> x = y"
proof -
  have "rev a @ c # rev x = rev b @ c # rev y"
    using assms(3) by (metis rev.simps(2) rev_append append_assoc append_Cons append_Nil)
  moreover have "takeWhile (\<lambda>z. z \<noteq> c) (rev a @ c # rev x) = rev a"
    using assms(1) by (auto simp add: takeWhile_tail)
  moreover have "takeWhile (\<lambda>z. z \<noteq> c) (rev b @ c # rev y) = rev b"
    using assms(2) by (auto simp add: takeWhile_tail)
  ultimately have "rev a = rev b" by simp
  then have "a = b" by simp
  with assms(3) show ?thesis by simp
qed

lemma storage_path_inj:
  assumes "CHR ''.'' \<notin> set ext1" "CHR ''.'' \<notin> set ext2" "length id1 = length id2"
    and "storage_path_of u1 id1 ext1 = storage_path_of u2 id2 ext2"
  shows "id1 = id2 \<and> u1 = u2 \<and> ext1 = ext2"
proof -
  have e: "(''users/'' @ u1 @ ''/uploads/'' @ id1) @ CHR ''.'' # ext1
         = (''users/'' @ u2 @ ''/uploads/'' @ id2) @ CHR ''.'' # ext2"
    using assms(4) by (simp add: storage_path_of_def)
  from last_dot_unique[OF assms(1,2) e]
  have x: "ext1 = ext2" and p: "(u1 @ ''/uploads/'') @ id1 = (u2 @ ''/uploads/'') @ id2"
    by simp_all
  from p assms(3) have "id1 = id2 \<and> u1 @ ''/uploads/'' = u2 @ ''/uploads/''"
    by (metis append_eq_append_conv)
  with x show ?thesis by simp
qed


lemma ups_fields:
  "files (update_processing_status t u f st pr m s) = files s"
  "documents_metadata (update_processing_status t u f st pr m s) = documents_metadata s"
  "summaries (update_processing_status t u f st pr m s) = summaries s"
  "users_profile (update_processing_status t u f st pr m s) = users_profile s"
  "bucket (update_processing_status t u f st pr m s) = bucket s"
  "status_log (update_processing_status t u f st pr m s) =
     status_log s @ [\<lparr>w_file_id = f, w_status = st, w_progress = pr, w_message = m\<rparr>]"
  "processing_status (update_processing_status t u f st pr m s) =
     (processing_status s)(f \<mapsto> status_document t u f st pr m)"
  by (simp_all add: update_processing_status_def)

lemma upload_file_unsupported:
  "supported_type (content_type file) = None \<Longrightarrow>
   upload_file e file bg user s =
     (Inl (HTTPException 400 (''Unsupported file type: '' @ py_format (content_type file))),
      ensure_user_profile (user_uid user) (user_email user) s)"
  by (simp add: upload_file_def Let_def)

lemma upload_file_InrD:
  assumes "upload_file e file bg user s = (Inr (r, ts), s')"
  shows "\<exists>t. supported_type (content_type file) = Some t
     \<and> r = \<lparr>r_file_id = new_uuid e, r_file_name = filename file, r_file_type = t,
            r_storage_path =
              storage_path_of (user_uid user) (new_uuid e) (file_ext_of (filename file) t),
            r_status = ''processing''\<rparr>
     \<and> ts = (if bg
             then [ProcessFile (user_uid user) (new_uuid e)
                     (storage_path_of (user_uid user) (new_uuid e)
                        (file_ext_of (filename file) t)) t]
             else [])
     \<and> files s' = files s @
          [\<lparr>f_file_id = new_uuid e, f_firebase_uid = user_uid user,
            f_file_name = filename file, f_file_type = t,
            f_storage_path =
              storage_path_of (user_uid user) (new_uuid e) (file_ext_of (filename file) t),
            f_upload_time = db_now e\<rparr>]
     \<and> documents_metadata s' = documents_metadata s @
          [\<lparr>d_id = new_uuid e, d_firebase_uid = user_uid user\<rparr>]
     \<and> status_log s' = status_log s @
          [\<lparr>w_file_id = new_uuid e, w_status = ''uploading'', w_progress = 10,
            w_message = Some ''Uploading file...''\<rparr>,
           \<lparr>w_file_id = new_uuid e, w_status = ''uploaded'', w_progress = 25,
            w_message = Some ''File uploaded successfully''\<rparr>]
     \<and> bucket s' =
          (bucket s)(storage_path_of (user_uid user) (new_uuid e)
                       (file_ext_of (filename file) t) \<mapsto> content file)
     \<and> summaries s' = summaries s"
  using assms
  by (auto simp: upload_file_def upload_file_try_def Let_def ups_fields ensure_other_stores
      split: option.splits prod.splits sum.splits)


lemma insert_metadata_NoneD:
  "insert_metadata e row s = (None, s') \<Longrightarrow>
     s' = s\<lparr>files := files s @ [row],
           documents_metadata := documents_metadata s @
             [\<lparr>d_id = f_file_id row, d_firebase_uid = f_firebase_uid row\<rparr>]\<rparr>"
  by (auto simp: insert_metadata_def Let_def split: option.splits)

lemma upload_url_InrD:
  assumes "upload_url e request user s = (Inr (r, ts), s')"
  shows "r = \<lparr>r_file_id = new_uuid e,
              r_file_name = py_or (u_title request) (take 100 (u_url request)),
              r_file_type = ''url'', r_storage_path = u_url request,
              r_status = ''processing''\<rparr>
     \<and> ts = [ProcessUrl (user_uid user) (new_uuid e) (u_url request)]
     \<and> files s' = files s @
          [\<lparr>f_file_id = new_uuid e, f_firebase_uid = user_uid user,
            f_file_name = py_or (u_title request) (take 100 (u_url request)),
            f_file_type = ''url'', f_storage_path = u_url request,
            f_upload_time = db_now e\<rparr>]
     \<and> documents_metadata s' = documents_metadata s @
          [\<lparr>d_id = new_uuid e, d_firebase_uid = user_uid user\<rparr>]
     \<and> status_log s' = status_log s @
          [\<lparr>w_file_id = new_uuid e, w_status = ''extracting'', w_progress = 30,
            w_message = Some ''Extracting content from URL...''\<rparr>]
     \<and> bucket s' = bucket s \<and> summaries s' = summaries s"
  using assms
  by (auto simp: upload_url_def Let_def ups_fields ensure_other_stores
      dest!: insert_metadata_NoneD split: option.splits prod.splits)

lemma upload_text_InrD:
  assumes "upload_text e request user s = (Inr (r, ts), s')"
  shows "r = \<lparr>r_file_id = new_uuid e,
              r_file_name = py_or (t_title request)
                    (''Text Note: '' @ text_preview (t_text request) @ ''...''),
              r_file_type = ''url'', r_storage_path = ''text://'' @ new_uuid e,
              r_status = ''processing''\<rparr>
     \<and> ts = [ProcessText (user_uid user) (new_uuid e) (t_text request)
              (py_or (t_title request)
                    (''Text Note: '' @ text_preview (t_text request) @ ''...''))]
     \<and> files s' = files s @
          [\<lparr>f_file_id = new_uuid e, f_firebase_uid = user_uid user,
            f_file_name = py_or (t_title request)
                    (''Text Note: '' @ text_preview (t_text request) @ ''...''),
            f_file_type = ''url'', f_storage_path = ''text://'' @ new_uuid e,
            f_upload_time = db_now e\<rparr>]
     \<and> documents_metadata s' = documents_metadata s @
          [\<lparr>d_id = new_uuid e, d_firebase_uid = user_uid user\<rparr>]
     \<and> status_log s' = status_log s @
          [\<lparr>w_file_id = new_uuid e, w_status = ''summarizing'', w_progress = 50,
            w_message = Some ''Generating summary...''\<rparr>]
     \<and> bucket s' = bucket s \<and> summaries s' = summaries s"
  using assms
  by (auto simp: upload_text_def Let_def ups_fields ensure_other_stores
      dest!: insert_metadata_NoneD split: option.splits prod.splits)


lemma supported_type_None_iff:
  "(supported_type ct = None) = (ct \<notin> Some ` fst ` set SUPPORTED_TYPES)"
  by (cases ct) (auto simp: supported_type_def map_of_eq_None_iff)

text \<open>
  C3 (as the code has it). A file upload whose content type is not a key of
  \<^verbatim>\<open>SUPPORTED_TYPES\<close> is rejected with status 400, and the stores after the
  request are those that \<^verbatim>\<open>ensure_user_profile\<close> leaves: no content bytes, no
  row of \<^verbatim>\<open>files\<close>, \<^verbatim>\<open>documents_metadata\<close> or \<^verbatim>\<open>summaries\<close>
  and no status document is written. The profile upsert (step 1.5 of the handler) runs
  before the validation (step 2) and is the only write such a request can make.
\<close>

theorem upload_file_rejects_unsupported:
  assumes "content_type file \<notin> Some ` fst ` set SUPPORTED_TYPES"
  shows "fst (upload_file e file bg user s) =
           Inl (HTTPException 400 (''Unsupported file type: '' @ py_format (content_type file)))
     \<and> snd (upload_file e file bg user s) =
           ensure_user_profile (user_uid user) (user_email user) s
     \<and> files (snd (upload_file e file bg user s)) = files s
     \<and> documents_metadata (snd (upload_file e file bg user s)) = documents_metadata s
     \<and> summaries (snd (upload_file e file bg user s)) = summaries s
     \<and> processing_status (snd (upload_file e file bg user s)) = processing_status s
     \<and> bucket (snd (upload_file e file bg user s)) = bucket s
     \<and> status_log (snd (upload_file e file bg user s)) = status_log s"
proof -
  have "supported_type (content_type file) = None"
    using assms by (simp add: supported_type_None_iff)
  from upload_file_unsupported[OF this, of e bg user s] show ?thesis
    by (simp add: ensure_other_stores)
qed

text \<open>Witness: a \<^verbatim>\<open>text/plain\<close> upload on the example state.\<close>

theorem upload_file_rejects_unsupported_witness:
  "Some ''text/plain'' \<notin> Some ` fst ` set SUPPORTED_TYPES
   \<and> fst (upload_file example_env (example_upload\<lparr>content_type := Some ''text/plain''\<rparr>) True
           example_user example_stores)
       = Inl (HTTPException 400 ''Unsupported file type: text/plain'')
   \<and> files (snd (upload_file example_env (example_upload\<lparr>content_type := Some ''text/plain''\<rparr>)
           True example_user example_stores)) = files example_stores
   \<and> bucket (snd (upload_file example_env (example_upload\<lparr>content_type := Some ''text/plain''\<rparr>)
           True example_user example_stores)) = bucket example_stores
   \<and> status_log (snd (upload_file example_env
           (example_upload\<lparr>content_type := Some ''text/plain''\<rparr>)
           True example_user example_stores)) = status_log example_stores"
proof -
  have c: "content_type (example_upload\<lparr>content_type := Some ''text/plain''\<rparr>)
             \<notin> Some ` fst ` set SUPPORTED_TYPES"
    by (simp add: SUPPORTED_TYPES_def image_iff)
  from upload_file_rejects_unsupported[OF c, of example_env True example_user example_stores] c
  show ?thesis by (simp add: py_format_def ensure_other_stores)
qed

text \<open>The claim as the specification words it (no record at all is written) fails for
  a user without profile: the rejected request has created the profile.\<close>

theorem upload_file_profile_counterexample:
  "fst (upload_file example_env (example_upload\<lparr>content_type := Some ''text/plain''\<rparr>) True
          example_user empty_stores)
     = Inl (HTTPException 400 ''Unsupported file type: text/plain'')
   \<and> users_profile empty_stores = []
   \<and> users_profile
        (snd (upload_file example_env (example_upload\<lparr>content_type := Some ''text/plain''\<rparr>)
                True example_user empty_stores))
     = [\<lparr>p_firebase_uid = ''u1'', p_email = Some ''a@b.c'', p_display_name = None,
         p_preferences = []\<rparr>]"
proof -
  have "supported_type (content_type (example_upload\<lparr>content_type := Some ''text/plain''\<rparr>)) = None"
    by (simp add: supported_type_def SUPPORTED_TYPES_def)
  from upload_file_unsupported[OF this, of example_env True example_user empty_stores]
  show ?thesis
    by (simp add: py_format_def ensure_user_profile_def empty_stores_def example_user_def)
qed

lemma paired_append:
  assumes "files s' = files s @ [row]" "f_file_id row = i" "f_firebase_uid row = u"
    "documents_metadata s' = documents_metadata s @ [\<lparr>d_id = i, d_firebase_uid = u\<rparr>]"
    "tables_paired s"
  shows "tables_paired s'"
  using assms by (simp add: tables_paired_def)

lemma appended_once:
  "k row = i \<Longrightarrow> i \<notin> k ` set rows \<Longrightarrow> length (filter (\<lambda>r. k r = i) (rows @ [row])) = 1"
proof -
  assume a: "k row = i" "i \<notin> k ` set rows"
  from a(2) have "filter (\<lambda>r. k r = i) rows = []"
    by (auto simp: filter_empty_conv)
  with a show ?thesis by simp
qed

lemma intake_rows:
  assumes "upload_file e file bg user s = (Inr (r, ts), s')
         \<or> upload_url e request user s = (Inr (r, ts), s')
         \<or> upload_text e trequest user s = (Inr (r, ts), s')"
  shows "r_file_id r = new_uuid e
     \<and> (\<exists>row. files s' = files s @ [row] \<and> f_file_id row = new_uuid e
              \<and> f_firebase_uid row = user_uid user)
     \<and> documents_metadata s' = documents_metadata s @
          [\<lparr>d_id = new_uuid e, d_firebase_uid = user_uid user\<rparr>]"
  using assms
proof (elim disjE)
  assume "upload_file e file bg user s = (Inr (r, ts), s')"
  from upload_file_InrD[OF this] show ?thesis by auto
next
  assume "upload_url e request user s = (Inr (r, ts), s')"
  from upload_url_InrD[OF this] show ?thesis by auto
next
  assume "upload_text e trequest user s = (Inr (r, ts), s')"
  from upload_text_InrD[OF this] show ?thesis by auto
qed

lemma upload_file_accepts:
  assumes "supported_type (content_type file) = Some t" "storage_failure e = None"
    "files_insert_failure e = None" "metadata_insert_failure e = None"
  shows "fst (upload_file e file bg user s) =
     Inr (\<lparr>r_file_id = new_uuid e, r_file_name = filename file, r_file_type = t,
            r_storage_path =
              storage_path_of (user_uid user) (new_uuid e) (file_ext_of (filename file) t),
            r_status = ''processing''\<rparr>,
          if bg
          then [ProcessFile (user_uid user) (new_uuid e)
                  (storage_path_of (user_uid user) (new_uuid e)
                     (file_ext_of (filename file) t)) t]
          else [])"
  using assms by (simp add: upload_file_def upload_file_try_def Let_def)

lemma example_supported:
  "supported_type (content_type example_upload) = Some ''pdf''"
  by (simp add: example_upload_def supported_type_def SUPPORTED_TYPES_def)

lemma example_file_ext: "file_ext_of ''notes.pdf'' ''pdf'' = ''pdf''"
  by (simp add: file_ext_of_def)

lemma example_upload_result:
  assumes "storage_failure e = None" "files_insert_failure e = None"
    "metadata_insert_failure e = None"
  shows "upload_file e example_upload True user s =
     (Inr (\<lparr>r_file_id = new_uuid e, r_file_name = ''notes.pdf'', r_file_type = ''pdf'',
            r_storage_path = storage_path_of (user_uid user) (new_uuid e) ''pdf'',
            r_status = ''processing''\<rparr>,
          [ProcessFile (user_uid user) (new_uuid e)
                  (storage_path_of (user_uid user) (new_uuid e) ''pdf'') ''pdf'']),
      snd (upload_file e example_upload True user s))"
proof -
  have n: "filename example_upload = ''notes.pdf''" by (simp add: example_upload_def)
  have "fst (upload_file e example_upload True user s) =
     Inr (\<lparr>r_file_id = new_uuid e, r_file_name = ''notes.pdf'', r_file_type = ''pdf'',
            r_storage_path = storage_path_of (user_uid user) (new_uuid e) ''pdf'',
            r_status = ''processing''\<rparr>,
          [ProcessFile (user_uid user) (new_uuid e)
                  (storage_path_of (user_uid user) (new_uuid e) ''pdf'') ''pdf''])"
    using upload_file_accepts[OF example_supported assms, of True user s]
    unfolding n example_file_ext if_True .
  then show ?thesis by (simp add: prod_eq_iff)
qed

lemma example_env_ok:
  "storage_failure example_env = None" "files_insert_failure example_env = None"
  "metadata_insert_failure example_env = None"
  "new_uuid example_env = ''00000000-0000-4000-8000-000000000001''"
  by (simp_all add: example_env_def)


lemma upload_file_path:
  assumes "upload_file e file bg user s = (Inr (r, ts), s')"
  shows "\<exists>t. supported_type (content_type file) = Some t
     \<and> r_storage_path r =
          storage_path_of (user_uid user) (new_uuid e) (file_ext_of (filename file) t)
     \<and> f_storage_path (last (files s')) = r_storage_path r
     \<and> bucket s' (r_storage_path r) = Some (content file)"
proof -
  from upload_file_InrD[OF assms] obtain t where
    t: "supported_type (content_type file) = Some t"
    and r: "r = \<lparr>r_file_id = new_uuid e, r_file_name = filename file, r_file_type = t,
            r_storage_path =
              storage_path_of (user_uid user) (new_uuid e) (file_ext_of (filename file) t),
            r_status = ''processing''\<rparr>"
    and f: "files s' = files s @
          [\<lparr>f_file_id = new_uuid e, f_firebase_uid = user_uid user,
            f_file_name = filename file, f_file_type = t,
            f_storage_path =
              storage_path_of (user_uid user) (new_uuid e) (file_ext_of (filename file) t),
            f_upload_time = db_now e\<rparr>]"
    and b: "bucket s' =
          (bucket s)(storage_path_of (user_uid user) (new_uuid e)
                       (file_ext_of (filename file) t) \<mapsto> content file)"
    by blast
  have "r_storage_path r =
          storage_path_of (user_uid user) (new_uuid e) (file_ext_of (filename file) t)"
    by (simp add: r)
  moreover have "f_storage_path (last (files s')) = r_storage_path r"
    by (simp add: r f)
  moreover have "bucket s' (r_storage_path r) = Some (content file)"
    by (simp add: r b)
  ultimately show ?thesis using t by blast
qed


text \<open>
  C9. Two accepted file uploads with distinct generated identifiers (of the shape of
  \<^verbatim>\<open>str(uuid.uuid4())\<close>) have different storage paths, whoever the users and
  whatever the file names are; the path of the response is the one recorded in
  \<^verbatim>\<open>files\<close> and the key under which the bytes are stored.
\<close>

theorem storage_paths_differ:
  assumes "upload_file e1 file1 bg1 user1 s1 = (Inr (r1, ts1), s1')"
    and "upload_file e2 file2 bg2 user2 s2 = (Inr (r2, ts2), s2')"
    and "uuid_str (new_uuid e1)" "uuid_str (new_uuid e2)"
    and "new_uuid e1 \<noteq> new_uuid e2"
  shows "r_storage_path r1 \<noteq> r_storage_path r2
     \<and> f_storage_path (last (files s1')) = r_storage_path r1
     \<and> f_storage_path (last (files s2')) = r_storage_path r2
     \<and> bucket s1' (r_storage_path r1) = Some (content file1)
     \<and> bucket s2' (r_storage_path r2) = Some (content file2)"
proof -
  from upload_file_path[OF assms(1)] obtain t1 where
    t1: "supported_type (content_type file1) = Some t1"
    and p1: "r_storage_path r1 =
       storage_path_of (user_uid user1) (new_uuid e1) (file_ext_of (filename file1) t1)"
    and f1: "f_storage_path (last (files s1')) = r_storage_path r1"
    and b1: "bucket s1' (r_storage_path r1) = Some (content file1)"
    by blast
  from upload_file_path[OF assms(2)] obtain t2 where
    t2: "supported_type (content_type file2) = Some t2"
    and p2: "r_storage_path r2 =
       storage_path_of (user_uid user2) (new_uuid e2) (file_ext_of (filename file2) t2)"
    and f2: "f_storage_path (last (files s2')) = r_storage_path r2"
    and b2: "bucket s2' (r_storage_path r2) = Some (content file2)"
    by blast
  have "length (map (\<lambda>c. if c \<in> set ''0123456789abcdef'' then CHR ''x'' else c) (new_uuid e1))
      = length (map (\<lambda>c. if c \<in> set ''0123456789abcdef'' then CHR ''x'' else c) (new_uuid e2))"
    using assms(3,4) unfolding uuid_str_def by (simp only:)
  then have l: "length (new_uuid e1) = length (new_uuid e2)"
    by (simp only: length_map)
  have "r_storage_path r1 \<noteq> r_storage_path r2"
  proof
    assume "r_storage_path r1 = r_storage_path r2"
    then have "storage_path_of (user_uid user1) (new_uuid e1) (file_ext_of (filename file1) t1)
       = storage_path_of (user_uid user2) (new_uuid e2) (file_ext_of (filename file2) t2)"
      unfolding p1 p2 .
    from storage_path_inj[OF file_ext_no_dot[OF supported_type_no_dot[OF t1]]
        file_ext_no_dot[OF supported_type_no_dot[OF t2]] l this]
    show False using assms(5) by blast
  qed
  with f1 f2 b1 b2 show ?thesis by blast
qed


text \<open>Witness: two users upload \<^verbatim>\<open>notes.pdf\<close>.\<close>

theorem storage_paths_differ_witness:
  "uuid_str (new_uuid example_env)
   \<and> uuid_str (new_uuid (example_env\<lparr>new_uuid := ''00000000-0000-4000-8000-000000000002''\<rparr>))
   \<and> filename example_upload = ''notes.pdf''
   \<and> fst (upload_file example_env example_upload True example_user empty_stores)
       = Inr (\<lparr>r_file_id = ''00000000-0000-4000-8000-000000000001'',
               r_file_name = ''notes.pdf'', r_file_type = ''pdf'',
               r_storage_path = ''users/u1/uploads/00000000-0000-4000-8000-000000000001.pdf'',
               r_status = ''processing''\<rparr>,
             [ProcessFile ''u1'' ''00000000-0000-4000-8000-000000000001''
                ''users/u1/uploads/00000000-0000-4000-8000-000000000001.pdf'' ''pdf''])
   \<and> fst (upload_file (example_env\<lparr>new_uuid := ''00000000-0000-4000-8000-000000000002''\<rparr>)
           example_upload True (example_user\<lparr>user_uid := ''u2''\<rparr>) empty_stores)
       = Inr (\<lparr>r_file_id = ''00000000-0000-4000-8000-000000000002'',
               r_file_name = ''notes.pdf'', r_file_type = ''pdf'',
               r_storage_path = ''users/u2/uploads/00000000-0000-4000-8000-000000000002.pdf'',
               r_status = ''processing''\<rparr>,
             [ProcessFile ''u2'' ''00000000-0000-4000-8000-000000000002''
                ''users/u2/uploads/00000000-0000-4000-8000-000000000002.pdf'' ''pdf''])
   \<and> storage_path_of ''u1'' ''00000000-0000-4000-8000-000000000001'' ''pdf''
       \<noteq> storage_path_of ''u2'' ''00000000-0000-4000-8000-000000000002'' ''pdf''"
proof -
  let ?e2 = "example_env\<lparr>new_uuid := ''00000000-0000-4000-8000-000000000002''\<rparr>"
  let ?u2 = "example_user\<lparr>user_uid := ''u2''\<rparr>"
  have e2: "storage_failure ?e2 = None" "files_insert_failure ?e2 = None"
    "metadata_insert_failure ?e2 = None"
    by (simp_all add: example_env_def)
  have n1: "new_uuid example_env = ''00000000-0000-4000-8000-000000000001''"
    by (rule example_env_ok(4))
  have n2: "new_uuid ?e2 = ''00000000-0000-4000-8000-000000000002''" by simp
  have i1: "user_uid example_user = ''u1''" by (simp add: example_user_def)
  have i2: "user_uid ?u2 = ''u2''" by simp
  have u1: "uuid_str (new_uuid example_env)"
    unfolding n1 by (simp add: uuid_str_def)
  have u2: "uuid_str (new_uuid ?e2)"
    unfolding n2 by (simp add: uuid_str_def)
  have d: "new_uuid example_env \<noteq> new_uuid ?e2"
    unfolding n1 n2 by simp
  note r1 = example_upload_result[OF example_env_ok(1,2,3), of example_user empty_stores]
  note r2 = example_upload_result[OF e2, of ?u2 empty_stores]
  from storage_paths_differ[OF r1 r2 u1 u2 d]
  have "storage_path_of (user_uid example_user) (new_uuid example_env) ''pdf''
      \<noteq> storage_path_of (user_uid ?u2) (new_uuid ?e2) ''pdf''"
    by (simp only: FileUploadResponse.simps simp_thms)
  then have ne: "storage_path_of ''u1'' ''00000000-0000-4000-8000-000000000001'' ''pdf''
       \<noteq> storage_path_of ''u2'' ''00000000-0000-4000-8000-000000000002'' ''pdf''"
    unfolding n1 n2 i1 i2 .
  have p1: "storage_path_of ''u1'' ''00000000-0000-4000-8000-000000000001'' ''pdf''
      = ''users/u1/uploads/00000000-0000-4000-8000-000000000001.pdf''"
    by (simp add: storage_path_of_def)
  have p2: "storage_path_of ''u2'' ''00000000-0000-4000-8000-000000000002'' ''pdf''
      = ''users/u2/uploads/00000000-0000-4000-8000-000000000002.pdf''"
    by (simp add: storage_path_of_def)
  have a: "fst (upload_file example_env example_upload True example_user empty_stores)
       = Inr (\<lparr>r_file_id = ''00000000-0000-4000-8000-000000000001'',
               r_file_name = ''notes.pdf'', r_file_type = ''pdf'',
               r_storage_path = ''users/u1/uploads/00000000-0000-4000-8000-000000000001.pdf'',
               r_status = ''processing''\<rparr>,
             [ProcessFile ''u1'' ''00000000-0000-4000-8000-000000000001''
                ''users/u1/uploads/00000000-0000-4000-8000-000000000001.pdf'' ''pdf''])"
    using arg_cong[OF r1, of fst] unfolding n1 i1 p1 by (simp only: fst_conv)
  have b: "fst (upload_file ?e2 example_upload True ?u2 empty_stores)
       = Inr (\<lparr>r_file_id = ''00000000-0000-4000-8000-000000000002'',
               r_file_name = ''notes.pdf'', r_file_type = ''pdf'',
               r_storage_path = ''users/u2/uploads/00000000-0000-4000-8000-000000000002.pdf'',
               r_status = ''processing''\<rparr>,
             [ProcessFile ''u2'' ''00000000-0000-4000-8000-000000000002''
                ''users/u2/uploads/00000000-0000-4000-8000-000000000002.pdf'' ''pdf''])"
    using arg_cong[OF r2, of fst] unfolding n2 i2 p2 by (simp only: fst_conv)
  have f: "filename example_upload = ''notes.pdf''" by (simp add: example_upload_def)
  from u1 u2 f a b ne show ?thesis by blast
qed

subsection \<open>The two metadata tables\<close>

lemma pair_of_fst: "fst p = a \<Longrightarrow> p = (a, snd p)"
  by (cases p) simp



lemma upload_file_succeeds_iff:
  "(\<exists>r ts. fst (upload_file e file bg user s) = Inr (r, ts))
     = (supported_type (content_type file) \<noteq> None \<and> storage_failure e = None
        \<and> files_insert_failure e = None \<and> metadata_insert_failure e = None)"
  by (auto simp: upload_file_def upload_file_try_def Let_def split: option.splits)

lemma upload_url_succeeds_iff:
  "(\<exists>r ts. fst (upload_url e request user s) = Inr (r, ts))
     = (files_insert_failure e = None \<and> metadata_insert_failure e = None)"
  by (auto simp: upload_url_def insert_metadata_def Let_def split: option.splits)

lemma upload_text_succeeds_iff:
  "(\<exists>r ts. fst (upload_text e request user s) = Inr (r, ts))
     = (files_insert_failure e = None \<and> metadata_insert_failure e = None)"
  by (auto simp: upload_text_def insert_metadata_def Let_def split: option.splits)

lemma insert_metadata_covered:
  "metadata_covered s \<Longrightarrow> metadata_covered (snd (insert_metadata e row s))"
  by (auto simp: insert_metadata_def metadata_covered_def Let_def split: option.splits)

lemma covered_cong:
  "files s' = files s \<Longrightarrow> documents_metadata s' = documents_metadata s \<Longrightarrow>
   metadata_covered s' = metadata_covered s"
  by (simp add: metadata_covered_def)

lemma ensure_covered:
  "metadata_covered (ensure_user_profile u m s) = metadata_covered s"
  by (rule covered_cong) (simp_all add: ensure_other_stores)

lemma ups_covered:
  "metadata_covered (update_processing_status t u f st pr m s) = metadata_covered s"
  by (rule covered_cong) (simp_all add: ups_fields)

lemma upload_url_covered:
  assumes "metadata_covered s"
  shows "metadata_covered (snd (upload_url e request user s))"
proof -
  let ?s1 = "ensure_user_profile (user_uid user) (user_email user) s"
  let ?row = "\<lparr>f_file_id = new_uuid e, f_firebase_uid = user_uid user,
                f_file_name = py_or (u_title request) (take 100 (u_url request)),
                f_file_type = ''url'', f_storage_path = u_url request,
                f_upload_time = db_now e\<rparr>"
  have c: "metadata_covered (snd (insert_metadata e ?row ?s1))"
    using assms by (intro insert_metadata_covered) (simp add: ensure_covered)
  show ?thesis
    using c by (cases "insert_metadata e ?row ?s1")
      (auto simp: upload_url_def Let_def ups_covered split: option.splits)
qed

lemma upload_text_covered:
  assumes "metadata_covered s"
  shows "metadata_covered (snd (upload_text e request user s))"
proof -
  let ?s1 = "ensure_user_profile (user_uid user) (user_email user) s"
  let ?title = "py_or (t_title request)
                    (''Text Note: '' @ text_preview (t_text request) @ ''...'')"
  let ?row = "\<lparr>f_file_id = new_uuid e, f_firebase_uid = user_uid user,
                f_file_name = ?title, f_file_type = ''url'',
                f_storage_path = ''text://'' @ new_uuid e, f_upload_time = db_now e\<rparr>"
  have c: "metadata_covered (snd (insert_metadata e ?row ?s1))"
    using assms by (intro insert_metadata_covered) (simp add: ensure_covered)
  show ?thesis
    using c by (cases "insert_metadata e ?row ?s1")
      (auto simp: upload_text_def Let_def ups_covered split: option.splits)
qed

lemma upload_file_try_covered:
  "metadata_covered s \<Longrightarrow>
   metadata_covered (snd (upload_file_try e file bg u f t p s))"
  by (auto simp: upload_file_try_def Let_def metadata_covered_def ups_fields
      split: option.splits)

lemma upload_file_covered:
  assumes "metadata_covered s"
  shows "metadata_covered (snd (upload_file e file bg user s))"
proof (cases "supported_type (content_type file)")
  case None
  then show ?thesis using assms by (simp add: upload_file_def Let_def ensure_covered)
next
  case (Some t)
  let ?s2 = "update_processing_status (clock e 0) (user_uid user) (new_uuid e)
                        ''uploading'' 10 (Some ''Uploading file...'')
               (ensure_user_profile (user_uid user) (user_email user) s)"
  have "metadata_covered ?s2" using assms by (simp add: ups_covered ensure_covered)
  from upload_file_try_covered[OF this, of e "file" bg "user_uid user" "new_uuid e" t
      "storage_path_of (user_uid user) (new_uuid e) (file_ext_of (filename file) t)"]
  show ?thesis
    using Some
    by (cases "upload_file_try e file bg (user_uid user) (new_uuid e) t
          (storage_path_of (user_uid user) (new_uuid e) (file_ext_of (filename file) t)) ?s2")
      (auto simp: upload_file_def Let_def ups_covered split: sum.splits)
qed

lemma paired_cong:
  "files s' = files s \<Longrightarrow> documents_metadata s' = documents_metadata s \<Longrightarrow>
   tables_paired s' = tables_paired s"
  by (simp add: tables_paired_def)

lemma ensure_paired:
  "tables_paired (ensure_user_profile u m s) = tables_paired s"
  by (rule paired_cong) (simp_all add: ensure_other_stores)

lemma ups_paired:
  "tables_paired (update_processing_status t u f st pr m s) = tables_paired s"
  by (rule paired_cong) (simp_all add: ups_fields)

lemma insert_metadata_paired:
  "tables_paired s \<Longrightarrow> metadata_insert_failure e = None \<Longrightarrow>
   tables_paired (snd (insert_metadata e row s))"
  by (auto simp: insert_metadata_def tables_paired_def Let_def split: option.splits)

lemma upload_url_paired:
  assumes "tables_paired s" "metadata_insert_failure e = None"
  shows "tables_paired (snd (upload_url e request user s))"
proof -
  let ?s1 = "ensure_user_profile (user_uid user) (user_email user) s"
  let ?row = "\<lparr>f_file_id = new_uuid e, f_firebase_uid = user_uid user,
                f_file_name = py_or (u_title request) (take 100 (u_url request)),
                f_file_type = ''url'', f_storage_path = u_url request,
                f_upload_time = db_now e\<rparr>"
  have c: "tables_paired (snd (insert_metadata e ?row ?s1))"
    using assms by (intro insert_metadata_paired) (simp_all add: ensure_paired)
  show ?thesis
    using c by (cases "insert_metadata e ?row ?s1")
      (auto simp: upload_url_def Let_def ups_paired split: option.splits)
qed

lemma upload_text_paired:
  assumes "tables_paired s" "metadata_insert_failure e = None"
  shows "tables_paired (snd (upload_text e request user s))"
proof -
  let ?s1 = "ensure_user_profile (user_uid user) (user_email user) s"
  let ?title = "py_or (t_title request)
                    (''Text Note: '' @ text_preview (t_text request) @ ''...'')"
  let ?row = "\<lparr>f_file_id = new_uuid e, f_firebase_uid = user_uid user,
                f_file_name = ?title, f_file_type = ''url'',
                f_storage_path = ''text://'' @ new_uuid e, f_upload_time = db_now e\<rparr>"
  have c: "tables_paired (snd (insert_metadata e ?row ?s1))"
    using assms by (intro insert_metadata_paired) (simp_all add: ensure_paired)
  show ?thesis
    using c by (cases "insert_metadata e ?row ?s1")
      (auto simp: upload_text_def Let_def ups_paired split: option.splits)
qed

lemma upload_file_try_paired:
  "tables_paired s \<Longrightarrow> metadata_insert_failure e = None \<Longrightarrow>
   tables_paired (snd (upload_file_try e upl bg u f t p s))"
  by (auto simp: upload_file_try_def Let_def tables_paired_def ups_fields
      split: option.splits)

lemma upload_file_paired:
  assumes "tables_paired s" "metadata_insert_failure e = None"
  shows "tables_paired (snd (upload_file e upl bg user s))"
proof (cases "supported_type (content_type upl)")
  case None
  then show ?thesis using assms by (simp add: upload_file_def Let_def ensure_paired)
next
  case (Some t)
  let ?s2 = "update_processing_status (clock e 0) (user_uid user) (new_uuid e)
                        ''uploading'' 10 (Some ''Uploading file...'')
               (ensure_user_profile (user_uid user) (user_email user) s)"
  have "tables_paired ?s2" using assms by (simp add: ups_paired ensure_paired)
  from upload_file_try_paired[OF this assms(2), of upl bg "user_uid user" "new_uuid e" t
      "storage_path_of (user_uid user) (new_uuid e) (file_ext_of (filename upl) t)"]
  show ?thesis
    using Some
    by (cases "upload_file_try e upl bg (user_uid user) (new_uuid e) t
          (storage_path_of (user_uid user) (new_uuid e) (file_ext_of (filename upl) t)) ?s2")
      (auto simp: upload_file_def Let_def ups_paired split: sum.splits)
qed

lemma summarize_and_persist_tables:
  "files (summarize_and_persist caps k u f body s) = files s"
  "documents_metadata (summarize_and_persist caps k u f body s) = documents_metadata s"
  by (simp_all add: summarize_and_persist_def append_summary_def ups_fields split: sum.splits)

lemma run_task_tables:
  "files (run_task caps t s) = files s"
  "documents_metadata (run_task caps t s) = documents_metadata s"
  by (cases t;
      simp add: process_file_def process_url_def process_text_def Let_def
        summarize_and_persist_tables ups_fields split: option.splits sum.splits)+

lemma serve_paired:
  "tables_paired s \<Longrightarrow> second_insert_ok q \<Longrightarrow> tables_paired (serve q s)"
proof (cases q)
  case (Background caps t)
  assume "tables_paired s"
  moreover have "tables_paired (run_task caps t s) = tables_paired s"
    by (rule paired_cong) (simp_all add: run_task_tables)
  ultimately show ?thesis using Background by simp
qed (simp_all add: upload_file_paired upload_url_paired upload_text_paired ensure_paired)

lemma served_paired:
  "tables_paired s \<Longrightarrow> \<forall>q \<in> set reqs. second_insert_ok q \<Longrightarrow>
   tables_paired (fold serve reqs s)"
  by (induction reqs arbitrary: s) (simp_all add: serve_paired)

lemma serve_covered: "metadata_covered s \<Longrightarrow> metadata_covered (serve q s)"
proof (cases q)
  case (Background caps t)
  assume "metadata_covered s"
  moreover have "metadata_covered (run_task caps t s) = metadata_covered s"
    by (rule covered_cong) (simp_all add: run_task_tables)
  ultimately show ?thesis using Background by simp
qed (simp_all add: upload_file_covered upload_url_covered upload_text_covered ensure_covered)

lemma served_covered:
  "metadata_covered s \<Longrightarrow> metadata_covered (fold serve reqs s)"
  by (induction reqs arbitrary: s) (simp_all add: serve_covered)

lemma empty_stores_tables:
  "tables_paired empty_stores" "metadata_covered empty_stores"
  by (simp_all add: tables_paired_def metadata_covered_def empty_stores_def)

text \<open>
  C6 (as the code has it). Each of the three intake handlers succeeds exactly when none
  of its store calls raises (and, for a file, the content type is supported). A
  successful intake appends exactly one row to \<^verbatim>\<open>files\<close> and exactly one row to
  \<^verbatim>\<open>documents_metadata\<close>, both with the generated identifier (the one of the
  response) and the identity of the caller; a fresh identifier then occurs exactly once
  in each table, and tables holding the same (identifier, owner) pairs still do so
  afterwards. In every state reached from the empty stores every (identifier, owner)
  pair of \<^verbatim>\<open>documents_metadata\<close> is a pair of \<^verbatim>\<open>files\<close>, and the two
  tables hold the same pairs when no intake on the way had its second insert raise.
\<close>

theorem intake_inserts_pair:
  "((\<exists>r ts. fst (upload_file e upl bg user s) = Inr (r, ts))
      = (supported_type (content_type upl) \<noteq> None \<and> storage_failure e = None
         \<and> files_insert_failure e = None \<and> metadata_insert_failure e = None))
   \<and> ((\<exists>r ts. fst (upload_url e request user s) = Inr (r, ts))
      = (files_insert_failure e = None \<and> metadata_insert_failure e = None))
   \<and> ((\<exists>r ts. fst (upload_text e trequest user s) = Inr (r, ts))
      = (files_insert_failure e = None \<and> metadata_insert_failure e = None))
   \<and> (upload_file e upl bg user s = (Inr (r, ts), s')
         \<or> upload_url e request user s = (Inr (r, ts), s')
         \<or> upload_text e trequest user s = (Inr (r, ts), s')
       \<longrightarrow> r_file_id r = new_uuid e
         \<and> (\<exists>row. files s' = files s @ [row] \<and> f_file_id row = new_uuid e
                  \<and> f_firebase_uid row = user_uid user)
         \<and> documents_metadata s' = documents_metadata s @
              [\<lparr>d_id = new_uuid e, d_firebase_uid = user_uid user\<rparr>]
         \<and> (new_uuid e \<notin> f_file_id ` set (files s) \<longrightarrow>
              length (filter (\<lambda>f. f_file_id f = new_uuid e) (files s')) = 1)
         \<and> (new_uuid e \<notin> d_id ` set (documents_metadata s) \<longrightarrow>
              length (filter (\<lambda>d. d_id d = new_uuid e) (documents_metadata s')) = 1)
         \<and> (tables_paired s \<longrightarrow> tables_paired s'))
   \<and> (metadata_covered s \<longrightarrow>
         metadata_covered (snd (upload_file e upl bg user s))
         \<and> metadata_covered (snd (upload_url e request user s))
         \<and> metadata_covered (snd (upload_text e trequest user s)))
   \<and> metadata_covered (fold serve reqs empty_stores)
   \<and> ((\<forall>q \<in> set reqs. second_insert_ok q) \<longrightarrow>
         tables_paired (fold serve reqs empty_stores))"
proof (intro conjI impI)
  assume a: "upload_file e upl bg user s = (Inr (r, ts), s')
         \<or> upload_url e request user s = (Inr (r, ts), s')
         \<or> upload_text e trequest user s = (Inr (r, ts), s')"
  from intake_rows[OF a] obtain row where
    r: "r_file_id r = new_uuid e" and
    f: "files s' = files s @ [row]" "f_file_id row = new_uuid e"
       "f_firebase_uid row = user_uid user" and
    d: "documents_metadata s' = documents_metadata s @
          [\<lparr>d_id = new_uuid e, d_firebase_uid = user_uid user\<rparr>]"
    by blast
  show "r_file_id r = new_uuid e" by (rule r)
  show "\<exists>row. files s' = files s @ [row] \<and> f_file_id row = new_uuid e
                  \<and> f_firebase_uid row = user_uid user"
    using f by blast
  show "documents_metadata s' = documents_metadata s @
          [\<lparr>d_id = new_uuid e, d_firebase_uid = user_uid user\<rparr>]"
    by (rule d)
  show "length (filter (\<lambda>f. f_file_id f = new_uuid e) (files s')) = 1"
    if "new_uuid e \<notin> f_file_id ` set (files s)"
    using appended_once[of f_file_id row "new_uuid e" "files s"] f that by simp
  show "length (filter (\<lambda>d. d_id d = new_uuid e) (documents_metadata s')) = 1"
    if "new_uuid e \<notin> d_id ` set (documents_metadata s)"
    using appended_once[of d_id "\<lparr>d_id = new_uuid e, d_firebase_uid = user_uid user\<rparr>"
        "new_uuid e" "documents_metadata s"] d that by simp
  show "tables_paired s'" if "tables_paired s"
    using paired_append[OF f d that] .
next
  show "metadata_covered (fold serve reqs empty_stores)"
    by (rule served_covered[OF empty_stores_tables(2)])
  show "tables_paired (fold serve reqs empty_stores)"
    if "\<forall>q \<in> set reqs. second_insert_ok q"
    by (rule served_paired[OF empty_stores_tables(1) that])
qed (simp_all only: upload_file_succeeds_iff upload_url_succeeds_iff upload_text_succeeds_iff
      upload_file_covered upload_url_covered upload_text_covered)

text \<open>Witness: the example file, URL and text on the empty stores, and a run of two
  intakes and a background task.\<close>

theorem intake_inserts_pair_witness:
  "tables_paired empty_stores
   \<and> map f_file_id (files (snd (upload_file example_env example_upload True example_user
          empty_stores))) = [''00000000-0000-4000-8000-000000000001'']
   \<and> documents_metadata (snd (upload_file example_env example_upload True example_user
          empty_stores))
       = [\<lparr>d_id = ''00000000-0000-4000-8000-000000000001'', d_firebase_uid = ''u1''\<rparr>]
   \<and> tables_paired (snd (upload_file example_env example_upload True example_user
          empty_stores))
   \<and> map f_file_id (files (snd (upload_url example_env example_url_request example_user
          empty_stores))) = [''00000000-0000-4000-8000-000000000001'']
   \<and> documents_metadata (snd (upload_url example_env example_url_request example_user
          empty_stores))
       = [\<lparr>d_id = ''00000000-0000-4000-8000-000000000001'', d_firebase_uid = ''u1''\<rparr>]
   \<and> tables_paired (snd (upload_url example_env example_url_request example_user
          empty_stores))
   \<and> map f_file_id (files (snd (upload_text example_env example_text_request example_user
          empty_stores))) = [''00000000-0000-4000-8000-000000000001'']
   \<and> documents_metadata (snd (upload_text example_env example_text_request example_user
          empty_stores))
       = [\<lparr>d_id = ''00000000-0000-4000-8000-000000000001'', d_firebase_uid = ''u1''\<rparr>]
   \<and> tables_paired (snd (upload_text example_env example_text_request example_user
          empty_stores))
   \<and> tables_paired (fold serve
        [UrlUpload example_env example_url_request example_user,
         Background example_caps
           (ProcessUrl ''u1'' ''00000000-0000-4000-8000-000000000001''
              ''https://example.org/cell''),
         TextUpload example_env example_text_request example_user] empty_stores)"
proof -
  have p: "tables_paired empty_stores"
    by (simp add: tables_paired_def empty_stores_def)
  have e: "files empty_stores = []" "documents_metadata empty_stores = []"
    by (simp_all add: empty_stores_def)
  have u: "user_uid example_user = ''u1''" by (simp add: example_user_def)
  have ok: "files_insert_failure example_env = None \<and> metadata_insert_failure example_env = None"
    by (simp add: example_env_def)
  note n = example_env_ok(4)
  note T = intake_inserts_pair[where e = example_env and user = example_user
      and s = empty_stores]
  note rf = example_upload_result[OF example_env_ok(1,2,3), of example_user empty_stores]
  note tf = T[THEN conjunct2, THEN conjunct2, THEN conjunct2, THEN conjunct1, THEN mp,
      OF disjI1, OF rf]
  from tf obtain row where
    "files (snd (upload_file example_env example_upload True example_user empty_stores))
       = files empty_stores @ [row]" "f_file_id row = new_uuid example_env"
    by blast
  then have a1: "map f_file_id (files (snd (upload_file example_env example_upload True
      example_user empty_stores))) = [''00000000-0000-4000-8000-000000000001'']"
    by (simp add: e n)
  from tf have a2: "documents_metadata (snd (upload_file example_env example_upload True
      example_user empty_stores))
       = [\<lparr>d_id = ''00000000-0000-4000-8000-000000000001'', d_firebase_uid = ''u1''\<rparr>]"
    by (simp add: e u n)
  from tf p have a3: "tables_paired (snd (upload_file example_env example_upload True
      example_user empty_stores))"
    by blast
  from T[where request = example_url_request, THEN conjunct2, THEN conjunct1] ok
  obtain ru tu where "fst (upload_url example_env example_url_request example_user
      empty_stores) = Inr (ru, tu)"
    by blast
  note ruq = pair_of_fst[OF this]
  note tu = T[where request = example_url_request, THEN conjunct2, THEN conjunct2,
      THEN conjunct2, THEN conjunct1, THEN mp, OF disjI2, OF disjI1, OF ruq]
  from tu obtain rowu where
    "files (snd (upload_url example_env example_url_request example_user empty_stores))
       = files empty_stores @ [rowu]" "f_file_id rowu = new_uuid example_env"
    by blast
  then have b1: "map f_file_id (files (snd (upload_url example_env example_url_request
      example_user empty_stores))) = [''00000000-0000-4000-8000-000000000001'']"
    by (simp add: e n)
  from tu have b2: "documents_metadata (snd (upload_url example_env example_url_request
      example_user empty_stores))
       = [\<lparr>d_id = ''00000000-0000-4000-8000-000000000001'', d_firebase_uid = ''u1''\<rparr>]"
    by (simp add: e u n)
  from tu p have b3: "tables_paired (snd (upload_url example_env example_url_request
      example_user empty_stores))"
    by blast
  from T[where trequest = example_text_request, THEN conjunct2, THEN conjunct2,
      THEN conjunct1] ok
  obtain rt tt where "fst (upload_text example_env example_text_request example_user
      empty_stores) = Inr (rt, tt)"
    by blast
  note rtq = pair_of_fst[OF this]
  note tt = T[where trequest = example_text_request, THEN conjunct2, THEN conjunct2,
      THEN conjunct2, THEN conjunct1, THEN mp, OF disjI2, OF disjI2, OF rtq]
  from tt obtain rowt where
    "files (snd (upload_text example_env example_text_request example_user empty_stores))
       = files empty_stores @ [rowt]" "f_file_id rowt = new_uuid example_env"
    by blast
  then have c1: "map f_file_id (files (snd (upload_text example_env example_text_request
      example_user empty_stores))) = [''00000000-0000-4000-8000-000000000001'']"
    by (simp add: e n)
  from tt have c2: "documents_metadata (snd (upload_text example_env example_text_request
      example_user empty_stores))
       = [\<lparr>d_id = ''00000000-0000-4000-8000-000000000001'', d_firebase_uid = ''u1''\<rparr>]"
    by (simp add: e u n)
  from tt p have c3: "tables_paired (snd (upload_text example_env example_text_request
      example_user empty_stores))"
    by blast
  have m: "metadata_insert_failure example_env = None" by (simp add: example_env_def)
  have "\<forall>q \<in> set [UrlUpload example_env example_url_request example_user,
         Background example_caps
           (ProcessUrl ''u1'' ''00000000-0000-4000-8000-000000000001''
              ''https://example.org/cell''),
         TextUpload example_env example_text_request example_user]. second_insert_ok q"
    by (simp add: m)
  from T[where reqs = "[UrlUpload example_env example_url_request example_user,
         Background example_caps
           (ProcessUrl ''u1'' ''00000000-0000-4000-8000-000000000001''
              ''https://example.org/cell''),
         TextUpload example_env example_text_request example_user]",
      THEN conjunct2, THEN conjunct2, THEN conjunct2, THEN conjunct2, THEN conjunct2,
      THEN conjunct2, THEN mp, OF this]
  have g: "tables_paired (fold serve
        [UrlUpload example_env example_url_request example_user,
         Background example_caps
           (ProcessUrl ''u1'' ''00000000-0000-4000-8000-000000000001''
              ''https://example.org/cell''),
         TextUpload example_env example_text_request example_user] empty_stores)" .
  from p a1 a2 a3 b1 b2 b3 c1 c2 c3 g show ?thesis by blast
qed

text \<open>The closing invariant of the claim as the specification words it (every identifier
  of one table is in the other) does not hold in every state: the two inserts are
  separate calls, and when the second raises the row of \<^verbatim>\<open>files\<close> stays without
  its companion.\<close>

theorem intake_unpaired_counterexample:
  "fst (upload_url (example_env\<lparr>metadata_insert_failure := Some ''store unavailable''\<rparr>)
          example_url_request example_user empty_stores)
     = Inl (Unhandled ''store unavailable'')
   \<and> map (\<lambda>f. (f_file_id f, f_firebase_uid f))
        (files (snd (upload_url
           (example_env\<lparr>metadata_insert_failure := Some ''store unavailable''\<rparr>)
           example_url_request example_user empty_stores)))
     = [(''00000000-0000-4000-8000-000000000001'', ''u1'')]
   \<and> documents_metadata (snd (upload_url
           (example_env\<lparr>metadata_insert_failure := Some ''store unavailable''\<rparr>)
           example_url_request example_user empty_stores)) = []
   \<and> tables_paired empty_stores
   \<and> \<not> tables_paired (snd (upload_url
           (example_env\<lparr>metadata_insert_failure := Some ''store unavailable''\<rparr>)
           example_url_request example_user empty_stores))"
  by (simp add: upload_url_def insert_metadata_def Let_def example_env_def
      ensure_other_stores empty_stores_def tables_paired_def example_user_def)

subsection \<open>The status documents\<close>

lemma status_document_fields:
  "status_document t u f st pr m ''firebase_uid'' = Some (Str u)"
  "status_document t u f st pr m ''status'' = Some (Str st)"
  "status_document t u f st pr m ''progress'' = Some (Num pr)"
  "status_document t u f st pr m ''message'' = Some (opt_value m)"
  "status_document t u f st pr m ''expire_at'' = Some (Timestamp (utcnow t + 86400))"
  by (simp_all add: status_document_def timedelta_hours_def)

lemma written_document:
  "processing_status (update_processing_status t u f st pr m s) f
     = Some (status_document t u f st pr m)"
  by (simp add: update_processing_status_def)

lemma get_status_written:
  "accepts_declared v \<Longrightarrow>
   get_status v f u (update_processing_status t u f st pr m s) =
     Inr \<lparr>ps_file_id = f, ps_status = st, ps_progress = pr, ps_message = m\<rparr>"
  by (cases m)
    (simp_all add: get_status_def written_document status_document_fields dict_get_def
      opt_value_def accepts_declared_def)

lemma get_status_404_iff:
  "(get_status v f u s = Inl (HTTPException 404 ''Status not found''))
     = (processing_status s f = None)"
  by (auto simp: get_status_def split: option.splits prod.splits)

lemma get_status_denied:
  "processing_status s f = Some data \<Longrightarrow> data ''firebase_uid'' \<noteq> Some (Str u) \<Longrightarrow>
   get_status v f u s = Inl (HTTPException 403 ''Access denied'')"
  by (simp add: get_status_def)

lemma example_validation_accepts: "accepts_declared example_validation"
  by (simp add: accepts_declared_def example_validation_def)

lemma decimal_40: "decimal ''40'' = Some 40"
  by (simp add: decimal_def)

text \<open>
  C4 (as the code has it). The write that creates the status document of an identifier
  stores \<^verbatim>\<open>expire_at\<close> = the time of that write plus 24 hours.
  \<^verbatim>\<open>get_status\<close> never looks at \<^verbatim>\<open>expire_at\<close>: it answers 404 "Status not
  found" exactly when the collection has no document for the identifier, so once the
  store has removed a document the read is the one of an identifier that was never
  written.
\<close>

theorem status_expiry:
  "(processing_status s f = None \<longrightarrow>
      map_option (\<lambda>d. d ''expire_at'')
          (processing_status (update_processing_status t u f st pr m s) f)
        = Some (Some (Timestamp (utcnow t + 24 * 3600))))
   \<and> (get_status v f caller s = Inl (HTTPException 404 ''Status not found''))
       = (processing_status s f = None)
   \<and> get_status v f caller (s\<lparr>processing_status := (processing_status s)(f := None)\<rparr>)
       = Inl (HTTPException 404 ''Status not found'')
   \<and> get_status v f caller (s\<lparr>processing_status := (processing_status s)(f := None)\<rparr>)
       = get_status v f caller empty_stores"
proof -
  have 1: "map_option (\<lambda>d. d ''expire_at'')
       (processing_status (update_processing_status t u f st pr m s) f)
     = Some (Some (Timestamp (utcnow t + 24 * 3600)))"
    by (simp add: written_document status_document_fields)
  have 2: "get_status v f caller (s\<lparr>processing_status := (processing_status s)(f := None)\<rparr>)
       = Inl (HTTPException 404 ''Status not found'')"
    by (simp add: get_status_404_iff)
  have 3: "get_status v f caller empty_stores = Inl (HTTPException 404 ''Status not found'')"
    by (simp add: get_status_404_iff empty_stores_def)
  from 1 2 3 get_status_404_iff[of v f caller s] show ?thesis by simp
qed

text \<open>Witness: a document created at time 1000 expires at 87400; nothing was written
  for the empty stores.\<close>

theorem status_expiry_witness:
  "processing_status empty_stores ''f1'' = None
   \<and> map_option (\<lambda>d. d ''expire_at'')
       (processing_status
          (update_processing_status \<lparr>utcnow = 1000, server_timestamp = 1000\<rparr> ''u1'' ''f1''
             ''uploading'' 10 None empty_stores) ''f1'')
     = Some (Some (Timestamp 87400))
   \<and> get_status example_validation ''f1'' ''u1'' empty_stores
     = Inl (HTTPException 404 ''Status not found'')"
proof -
  have n: "processing_status empty_stores ''f1'' = None" by (simp add: empty_stores_def)
  from status_expiry[of empty_stores "''f1''" "\<lparr>utcnow = 1000, server_timestamp = 1000\<rparr>"
      "''u1''" "''uploading''" 10 None example_validation "''u1''"] n
  show ?thesis by simp
qed

text \<open>The claim as the specification words it fails on the read: a document created at
  time 1000 is past its expiry at time 100000, and as long as the store holds it
  \<^verbatim>\<open>get_status\<close>, which has no clock, returns it, while the read of an identifier
  never written is a 404.\<close>

theorem status_expiry_counterexample:
  "expired_at 100000
      (update_processing_status \<lparr>utcnow = 1000, server_timestamp = 1000\<rparr> ''u1'' ''f1''
         ''uploading'' 10 None empty_stores) ''f1''
   \<and> get_status example_validation ''f1'' ''u1''
        (update_processing_status \<lparr>utcnow = 1000, server_timestamp = 1000\<rparr> ''u1'' ''f1''
           ''uploading'' 10 None empty_stores)
     = Inr \<lparr>ps_file_id = ''f1'', ps_status = ''uploading'', ps_progress = 10,
            ps_message = None\<rparr>
   \<and> get_status example_validation ''f1'' ''u1'' empty_stores
     = Inl (HTTPException 404 ''Status not found'')"
  by (simp add: expired_at_def written_document status_document_fields
      get_status_written[OF example_validation_accepts] get_status_404_iff empty_stores_def)

lemma get_status_defaults_read:
  assumes "accepts_declared v" "processing_status s f = Some data"
    "data ''firebase_uid'' = Some (Str u)"
    "field_typed (to_str v) (data ''status'')" "field_typed (to_int v) (data ''progress'')"
    "field_typed (to_optional_str v) (data ''message'')"
  shows "\<exists>r. get_status v f u s = Inr r
     \<and> (data ''status'' = None \<longrightarrow> ps_status r = ''unknown'')
     \<and> (data ''progress'' = None \<longrightarrow> ps_progress r = 0)"
  using assms
  by (auto simp: get_status_def dict_get_def field_typed_def accepts_declared_def
      split: option.splits)

lemma has_status_fields_update:
  "has_status_fields s \<Longrightarrow> has_status_fields (update_processing_status t u f st pr m s)"
  by (auto simp: has_status_fields_def update_processing_status_def status_document_fields)

text \<open>
  C10 (as the code has it). A read by the recorded owner of a stored document that lacks
  \<^verbatim>\<open>status\<close> or \<^verbatim>\<open>progress\<close>, when the response model accepts the fields
  that are present, does not fail: it returns \<^verbatim>\<open>"unknown"\<close> for a missing status
  and 0 for a missing progress. A caller who is not the recorded owner gets 403 before
  any field is read. The document \<^verbatim>\<open>update_processing_status\<close> writes has both
  fields, the owner reads back exactly the status and the progress written, and a
  collection whose documents all have both fields keeps that property under every
  write.
\<close>

theorem get_status_defaults:
  "(accepts_declared v \<and> processing_status s f = Some data
      \<and> data ''firebase_uid'' = Some (Str u)
      \<and> field_typed (to_str v) (data ''status'') \<and> field_typed (to_int v) (data ''progress'')
      \<and> field_typed (to_optional_str v) (data ''message'')
      \<longrightarrow> (\<exists>r. get_status v f u s = Inr r
             \<and> (data ''status'' = None \<longrightarrow> ps_status r = ''unknown'')
             \<and> (data ''progress'' = None \<longrightarrow> ps_progress r = 0)))
   \<and> (processing_status s f = Some data \<and> data ''firebase_uid'' \<noteq> Some (Str u)
      \<longrightarrow> get_status v f u s = Inl (HTTPException 403 ''Access denied''))
   \<and> map_option (\<lambda>d. (d ''status'', d ''progress''))
        (processing_status (update_processing_status t u f st pr m s) f)
       = Some (Some (Str st), Some (Num pr))
   \<and> (accepts_declared v \<longrightarrow>
        get_status v f u (update_processing_status t u f st pr m s)
          = Inr \<lparr>ps_file_id = f, ps_status = st, ps_progress = pr, ps_message = m\<rparr>)
   \<and> (has_status_fields s \<longrightarrow> has_status_fields (update_processing_status t u f st pr m s))"
  using get_status_defaults_read[of v s f data u] get_status_written[of v f u t st pr m s]
    has_status_fields_update[of s t u f st pr m] get_status_denied[of s f data u v]
  by (simp add: written_document status_document_fields)

text \<open>Witness: a document with the owner and the progress \<^verbatim>\<open>"40"\<close> reads as
  \<^verbatim>\<open>unknown\<close>, 40; one with the owner only as \<^verbatim>\<open>unknown\<close>, 0.\<close>

theorem get_status_defaults_witness:
  "accepts_declared example_validation
   \<and> get_status example_validation ''f1'' ''u1''
      (empty_stores\<lparr>processing_status :=
         [''f1'' \<mapsto> [''firebase_uid'' \<mapsto> Str ''u1'', ''progress'' \<mapsto> Str ''40'']]\<rparr>)
     = Inr \<lparr>ps_file_id = ''f1'', ps_status = ''unknown'', ps_progress = 40,
            ps_message = None\<rparr>
   \<and> get_status example_validation ''f1'' ''u1''
      (empty_stores\<lparr>processing_status := [''f1'' \<mapsto> [''firebase_uid'' \<mapsto> Str ''u1'']]\<rparr>)
     = Inr \<lparr>ps_file_id = ''f1'', ps_status = ''unknown'', ps_progress = 0,
            ps_message = None\<rparr>
   \<and> get_status example_validation ''f1'' ''u1''
       (update_processing_status \<lparr>utcnow = 1000, server_timestamp = 1000\<rparr> ''u1'' ''f1''
          ''uploading'' 10 None empty_stores)
     = Inr \<lparr>ps_file_id = ''f1'', ps_status = ''uploading'', ps_progress = 10,
            ps_message = None\<rparr>
   \<and> has_status_fields empty_stores
   \<and> has_status_fields
       (update_processing_status \<lparr>utcnow = 1000, server_timestamp = 1000\<rparr> ''u1'' ''f1''
          ''uploading'' 10 None empty_stores)"
proof -
  let ?d1 = "[''firebase_uid'' \<mapsto> Str ''u1'', ''progress'' \<mapsto> Str ''40''] :: document"
  let ?s1 = "empty_stores\<lparr>processing_status := [''f1'' \<mapsto> ?d1]\<rparr>"
  let ?d2 = "[''firebase_uid'' \<mapsto> Str ''u1''] :: document"
  let ?s2 = "empty_stores\<lparr>processing_status := [''f1'' \<mapsto> ?d2]\<rparr>"
  let ?t = "\<lparr>utcnow = 1000, server_timestamp = 1000\<rparr>"
  note A = example_validation_accepts
  have h: "has_status_fields empty_stores"
    by (simp add: has_status_fields_def empty_stores_def)
  have ti: "to_int example_validation (Str ''40'') = Some 40"
    by (simp add: example_validation_def decimal_40)
  have p1: "processing_status ?s1 ''f1'' = Some ?d1" by simp
  have ft1: "field_typed (to_str example_validation) (?d1 ''status'')"
       "field_typed (to_int example_validation) (?d1 ''progress'')"
       "field_typed (to_optional_str example_validation) (?d1 ''message'')"
    by (simp_all add: field_typed_def ti)
  from get_status_defaults[of example_validation ?s1 "''f1''" ?d1 "''u1''" ?t
      "''uploading''" 10 None, THEN conjunct1, THEN mp] A p1 ft1
  obtain r1 where r1: "get_status example_validation ''f1'' ''u1'' ?s1 = Inr r1"
      "ps_status r1 = ''unknown''"
    by auto
  then have "ps_file_id r1 = ''f1'' \<and> ps_progress r1 = 40 \<and> ps_message r1 = None"
    by (auto simp: get_status_def dict_get_def decimal_40 example_validation_def split: if_splits)
  with r1 have a: "get_status example_validation ''f1'' ''u1'' ?s1
     = Inr \<lparr>ps_file_id = ''f1'', ps_status = ''unknown'', ps_progress = 40, ps_message = None\<rparr>"
    by simp
  have p2: "processing_status ?s2 ''f1'' = Some ?d2" by simp
  have ft2: "field_typed (to_str example_validation) (?d2 ''status'')"
       "field_typed (to_int example_validation) (?d2 ''progress'')"
       "field_typed (to_optional_str example_validation) (?d2 ''message'')"
    by (simp_all add: field_typed_def)
  from get_status_defaults[of example_validation ?s2 "''f1''" ?d2 "''u1''" ?t
      "''uploading''" 10 None, THEN conjunct1, THEN mp] A p2 ft2
  obtain r2 where r2: "get_status example_validation ''f1'' ''u1'' ?s2 = Inr r2"
      "ps_status r2 = ''unknown''" "ps_progress r2 = 0"
    by auto
  then have "ps_file_id r2 = ''f1'' \<and> ps_message r2 = None"
    by (auto simp: get_status_def dict_get_def example_validation_def split: if_splits)
  with r2 have b: "get_status example_validation ''f1'' ''u1'' ?s2
     = Inr \<lparr>ps_file_id = ''f1'', ps_status = ''unknown'', ps_progress = 0, ps_message = None\<rparr>"
    by simp
  note G = get_status_defaults[of example_validation empty_stores "''f1''" ?d2 "''u1''" ?t
      "''uploading''" 10 None]
  from G A have c: "get_status example_validation ''f1'' ''u1''
       (update_processing_status ?t ''u1'' ''f1'' ''uploading'' 10 None empty_stores)
     = Inr \<lparr>ps_file_id = ''f1'', ps_status = ''uploading'', ps_progress = 10,
            ps_message = None\<rparr>" by blast
  from G h have d: "has_status_fields
       (update_processing_status ?t ''u1'' ''f1'' ''uploading'' 10 None empty_stores)"
    by blast
  from A a b c d h show ?thesis by blast
qed

text \<open>The claim as the specification words it (the read does not fail) fails for documents
  that lack both fields: one recorded for another owner, one without owner field, and
  one of the caller whose message is a timestamp.\<close>

theorem get_status_defaults_counterexample:
  "get_status example_validation ''f1'' ''u1''
      (empty_stores\<lparr>processing_status := [''f1'' \<mapsto> [''firebase_uid'' \<mapsto> Str ''u2'']]\<rparr>)
     = Inl (HTTPException 403 ''Access denied'')
   \<and> get_status example_validation ''f1'' ''u1''
      (empty_stores\<lparr>processing_status := [''f1'' \<mapsto> [''message'' \<mapsto> Str ''half written'']]\<rparr>)
     = Inl (HTTPException 403 ''Access denied'')
   \<and> get_status example_validation ''f1'' ''u1''
      (empty_stores\<lparr>processing_status :=
         [''f1'' \<mapsto> [''firebase_uid'' \<mapsto> Str ''u1'', ''message'' \<mapsto> Timestamp 5]]\<rparr>)
     = Inl (Unhandled ''ValidationError'')"
  by (simp add: get_status_def dict_get_def example_validation_def)

subsection \<open>The sequence of status writes\<close>


lemma ups_bucket: "bucket (update_processing_status t u f st pr m s) = bucket s"
  by (simp add: update_processing_status_def)























subsection \<open>One profile per identity\<close>

lemma ups_profiles:
  "users_profile (update_processing_status t u f st pr m s) = users_profile s"
  by (simp add: update_processing_status_def)

lemma upload_file_profiles:
  "users_profile (snd (upload_file e upl bg user s))
     = users_profile (ensure_user_profile (user_uid user) (user_email user) s)"
  by (simp add: upload_file_def upload_file_try_def Let_def ups_profiles
      split: option.splits)

lemma insert_metadata_profiles:
  "users_profile (snd (insert_metadata e row s)) = users_profile s"
  by (simp add: insert_metadata_def Let_def split: option.splits)

lemma upload_url_profiles:
  "users_profile (snd (upload_url e request user s))
     = users_profile (ensure_user_profile (user_uid user) (user_email user) s)"
proof -
  let ?s1 = "ensure_user_profile (user_uid user) (user_email user) s"
  let ?row = "\<lparr>f_file_id = new_uuid e, f_firebase_uid = user_uid user,
                f_file_name = py_or (u_title request) (take 100 (u_url request)),
                f_file_type = ''url'', f_storage_path = u_url request,
                f_upload_time = db_now e\<rparr>"
  from insert_metadata_profiles[of e ?row ?s1] show ?thesis
    by (cases "insert_metadata e ?row ?s1")
      (auto simp: upload_url_def Let_def ups_profiles split: option.splits)
qed

lemma upload_text_profiles:
  "users_profile (snd (upload_text e request user s))
     = users_profile (ensure_user_profile (user_uid user) (user_email user) s)"
proof -
  let ?s1 = "ensure_user_profile (user_uid user) (user_email user) s"
  let ?row = "\<lparr>f_file_id = new_uuid e, f_firebase_uid = user_uid user,
                f_file_name = py_or (t_title request)
                    (''Text Note: '' @ text_preview (t_text request) @ ''...''),
                f_file_type = ''url'',
                f_storage_path = ''text://'' @ new_uuid e, f_upload_time = db_now e\<rparr>"
  from insert_metadata_profiles[of e ?row ?s1] show ?thesis
    by (cases "insert_metadata e ?row ?s1")
      (auto simp: upload_text_def Let_def ups_profiles split: option.splits)
qed

lemma summarize_and_persist_profiles:
  "users_profile (summarize_and_persist caps k u f body s) = users_profile s"
  by (simp add: summarize_and_persist_def append_summary_def ups_profiles split: sum.splits)

lemma run_task_profiles: "users_profile (run_task caps t s) = users_profile s"
  by (cases t)
    (simp_all add: process_file_def process_url_def process_text_def Let_def
      summarize_and_persist_profiles ups_profiles split: option.splits sum.splits)

lemma serve_distinct:
  "distinct (map p_firebase_uid (users_profile s)) \<Longrightarrow>
   distinct (map p_firebase_uid (users_profile (serve q s)))"
  by (cases q)
    (simp_all add: upload_file_profiles upload_url_profiles upload_text_profiles
      run_task_profiles ensure_distinct)

lemma served_distinct:
  "distinct (map p_firebase_uid (users_profile s)) \<Longrightarrow>
   distinct (map p_firebase_uid (users_profile (fold serve reqs s)))"
  by (induction reqs arbitrary: s) (simp_all add: serve_distinct)

text \<open>
  C8 (as the code has it). \<^verbatim>\<open>ensure_user_profile\<close> is an idempotent upsert:
  running it twice with the same arguments gives the state of running it once. At most
  one profile per identity ever exists: in every state reached from the empty stores by
  any sequence of intakes, background tasks and calls of the operation, and the
  operation keeps it so. When the identity has no profile it appends one with the
  supplied (possibly null) email and a null display name; when the identity has the
  profile \<open>r\<close> it replaces the email of \<open>r\<close> by the new one exactly when the new
  email is neither null nor empty and the stored one is null or empty, and changes
  nothing otherwise.
\<close>

theorem ensure_user_profile_upsert:
  "ensure_user_profile uid email (ensure_user_profile uid email s) =
       ensure_user_profile uid email s
   \<and> distinct (map p_firebase_uid (users_profile (fold serve reqs empty_stores)))
   \<and> (distinct (map p_firebase_uid (users_profile s)) \<longrightarrow>
        distinct (map p_firebase_uid (users_profile (ensure_user_profile uid email s))))
   \<and> (uid \<notin> p_firebase_uid ` set (users_profile s) \<longrightarrow>
        ensure_user_profile uid email s =
          s\<lparr>users_profile := users_profile s @
             [\<lparr>p_firebase_uid = uid, p_email = email, p_display_name = None,
               p_preferences = []\<rparr>]\<rparr>)
   \<and> (distinct (map p_firebase_uid (users_profile s)) \<longrightarrow>
        (\<forall>r \<in> set (users_profile s). p_firebase_uid r = uid \<longrightarrow>
          ensure_user_profile uid email s =
            (if truthy email \<and> \<not> truthy (p_email r)
             then s\<lparr>users_profile :=
                    map (\<lambda>p. if p = r then r\<lparr>p_email := email\<rparr> else p) (users_profile s)\<rparr>
             else s)))"
proof -
  have "distinct (map p_firebase_uid (users_profile empty_stores))"
    by (simp add: empty_stores_def)
  from served_distinct[OF this, of reqs]
  have "distinct (map p_firebase_uid (users_profile (fold serve reqs empty_stores)))" .
  with ensure_idem[of uid email s] ensure_distinct[of s uid email]
    ensure_absent[of uid s email] ensure_present[of s _ uid email]
  show ?thesis by blast
qed

text \<open>Witness: a profile without email gets the email of a later request, once; another
  identity gets a profile of its own.\<close>

theorem ensure_user_profile_upsert_witness:
  "distinct (map p_firebase_uid
      (users_profile (empty_stores\<lparr>users_profile :=
         [\<lparr>p_firebase_uid = ''u1'', p_email = None, p_display_name = None,
           p_preferences = []\<rparr>]\<rparr>)))
   \<and> ensure_user_profile ''u1'' (Some ''a@b.c'')
       (ensure_user_profile ''u1'' (Some ''a@b.c'')
          (empty_stores\<lparr>users_profile :=
             [\<lparr>p_firebase_uid = ''u1'', p_email = None, p_display_name = None,
               p_preferences = []\<rparr>]\<rparr>))
     = ensure_user_profile ''u1'' (Some ''a@b.c'')
         (empty_stores\<lparr>users_profile :=
            [\<lparr>p_firebase_uid = ''u1'', p_email = None, p_display_name = None,
              p_preferences = []\<rparr>]\<rparr>)
   \<and> users_profile (ensure_user_profile ''u1'' (Some ''a@b.c'')
         (empty_stores\<lparr>users_profile :=
            [\<lparr>p_firebase_uid = ''u1'', p_email = None, p_display_name = None,
              p_preferences = []\<rparr>]\<rparr>))
     = [\<lparr>p_firebase_uid = ''u1'', p_email = Some ''a@b.c'', p_display_name = None,
         p_preferences = []\<rparr>]
   \<and> users_profile (ensure_user_profile ''u2'' None
         (empty_stores\<lparr>users_profile :=
            [\<lparr>p_firebase_uid = ''u1'', p_email = None, p_display_name = None,
              p_preferences = []\<rparr>]\<rparr>))
     = [\<lparr>p_firebase_uid = ''u1'', p_email = None, p_display_name = None,
         p_preferences = []\<rparr>,
        \<lparr>p_firebase_uid = ''u2'', p_email = None, p_display_name = None,
         p_preferences = []\<rparr>]
   \<and> distinct (map p_firebase_uid (users_profile
        (fold serve
           [EnsureProfile ''u1'' None,
            TextUpload example_env example_text_request example_user,
            EnsureProfile ''u1'' (Some ''a@b.c'')] empty_stores)))"
proof -
  let ?r = "\<lparr>p_firebase_uid = ''u1'', p_email = None, p_display_name = None,
           p_preferences = []\<rparr>"
  let ?s = "empty_stores\<lparr>users_profile := [?r]\<rparr>"
  have d: "distinct (map p_firebase_uid (users_profile ?s))"
    by (simp add: empty_stores_def)
  have u: "users_profile ?s = [?r]"
    by (simp add: empty_stores_def)
  note T = ensure_user_profile_upsert[where s = ?s]
  from T[where uid = "''u1''" and email = "Some ''a@b.c''"]
  have idem: "ensure_user_profile ''u1'' (Some ''a@b.c'')
       (ensure_user_profile ''u1'' (Some ''a@b.c'') ?s)
     = ensure_user_profile ''u1'' (Some ''a@b.c'') ?s"
    by blast
  from T[where uid = "''u1''" and email = "Some ''a@b.c''", THEN conjunct2, THEN conjunct2,
      THEN conjunct2, THEN conjunct2, THEN mp, OF d, THEN bspec, of ?r]
  have "ensure_user_profile ''u1'' (Some ''a@b.c'') ?s
      = ?s\<lparr>users_profile := [?r\<lparr>p_email := Some ''a@b.c''\<rparr>]\<rparr>"
    by (simp add: u truthy_def)
  then have upd: "users_profile (ensure_user_profile ''u1'' (Some ''a@b.c'') ?s)
     = [\<lparr>p_firebase_uid = ''u1'', p_email = Some ''a@b.c'', p_display_name = None,
         p_preferences = []\<rparr>]"
    by simp
  from T[where uid = "''u2''" and email = None, THEN conjunct2, THEN conjunct2,
      THEN conjunct2, THEN conjunct1]
  have "ensure_user_profile ''u2'' None ?s
      = ?s\<lparr>users_profile := users_profile ?s @
             [\<lparr>p_firebase_uid = ''u2'', p_email = None, p_display_name = None,
               p_preferences = []\<rparr>]\<rparr>"
    by (simp add: u)
  then have ins: "users_profile (ensure_user_profile ''u2'' None ?s)
     = [?r, \<lparr>p_firebase_uid = ''u2'', p_email = None, p_display_name = None,
         p_preferences = []\<rparr>]"
    by (simp add: u)
  from T[where reqs = "[EnsureProfile ''u1'' None,
            TextUpload example_env example_text_request example_user,
            EnsureProfile ''u1'' (Some ''a@b.c'')]"]
  have ever: "distinct (map p_firebase_uid (users_profile
        (fold serve
           [EnsureProfile ''u1'' None,
            TextUpload example_env example_text_request example_user,
            EnsureProfile ''u1'' (Some ''a@b.c'')] empty_stores)))"
    by blast
  from d idem upd ins ever show ?thesis by blast
qed

text \<open>The claim as the specification words it fails where the stored email is the empty
  string, which is not null: the first call stores \<^verbatim>\<open>""\<close>, the second replaces
  it.\<close>

theorem ensure_user_profile_null_counterexample:
  "map p_email (users_profile (ensure_user_profile ''u1'' (Some '''') empty_stores))
     = [Some '''']
   \<and> map p_email (users_profile
        (ensure_user_profile ''u1'' (Some ''a@b.c'')
           (ensure_user_profile ''u1'' (Some '''') empty_stores)))
     = [Some ''a@b.c'']"
  by (simp add: ensure_user_profile_def empty_stores_def truthy_def)

end
